theory Spec2Isabelle
  imports Main
begin

section \<open>Python values\<close>

text \<open>
  Parsed JSON, as \<^verbatim>\<open>json.loads\<close> and \<^verbatim>\<open>response.json()\<close> return it, and the
  free-form values of a \<^verbatim>\<open>Dict[str, Any]\<close>. A Python dict is an association list in
  insertion order; a parsed dict has pairwise distinct keys. Numbers are integers here:
  the code only ever tests a number for truthiness.
\<close>

datatype json =
    JNull
  | JBool bool
  | JNum int
  | JStr string
  | JArr "json list"
  | JObj "(string \<times> json) list"

text \<open>Python truthiness (\<^verbatim>\<open>if x:\<close>, \<^verbatim>\<open>if not x:\<close>).\<close>

fun truthy :: "json \<Rightarrow> bool" where
  "truthy JNull = False"
| "truthy (JBool b) = b"
| "truthy (JNum n) = (n \<noteq> 0)"
| "truthy (JStr s) = (s \<noteq> [])"
| "truthy (JArr xs) = (xs \<noteq> [])"
| "truthy (JObj kvs) = (kvs \<noteq> [])"

text \<open>Truthiness of an \<^verbatim>\<open>Optional[str]\<close>, \<^verbatim>\<open>Optional[List[str]]\<close> or
  \<^verbatim>\<open>Optional[Dict[str, str]]\<close> field: \<^verbatim>\<open>None\<close> and the empty value are both false.\<close>

fun truthy_opt :: "'a list option \<Rightarrow> bool" where
  "truthy_opt None = False"
| "truthy_opt (Some xs) = (xs \<noteq> [])"

text \<open>\<^verbatim>\<open>s.startswith(p)\<close>.\<close>

definition startswith :: "string \<Rightarrow> string \<Rightarrow> bool" where
  "startswith s p = (take (length p) s = p)"

text \<open>\<^verbatim>\<open>str(n)\<close> of an integer, as an f-string prints it.\<close>

fun str_nat :: "nat \<Rightarrow> string" where
  "str_nat n =
     (if n < 10 then [''0123456789'' ! n]
      else str_nat (n div 10) @ [''0123456789'' ! (n mod 10)])"

definition str_int :: "int \<Rightarrow> string" where
  "str_int i = (if i < 0 then CHR ''-'' # str_nat (nat (- i)) else str_nat (nat i))"

text \<open>
  The exceptions the orchestrator tells apart: \<^verbatim>\<open>asyncio.TimeoutError\<close>, raised by
  \<^verbatim>\<open>asyncio.wait_for\<close> when the deadline expires, and any other \<^verbatim>\<open>Exception\<close>,
  carrying its \<^verbatim>\<open>str(e)\<close>.
\<close>

datatype py_exception = TimeoutError | Exception string

fun exc_str :: "py_exception \<Rightarrow> string" where
  "exc_str TimeoutError = []"
| "exc_str (Exception m) = m"

section \<open>Data model\<close>

subsection \<open>\<^verbatim>\<open>domain/entities/mcp_config.py\<close>\<close>

record mcp_server_config =
  command :: "string option"
  args :: "string list option"
  env :: "(string \<times> string) list option"
  url :: "string option"
  headers :: "(string \<times> string) list option"
  timeout :: "int option"

record mcp_json_config =
  mcpServers :: "(string \<times> mcp_server_config) list"

subsection \<open>\<^verbatim>\<open>domain/dto/tool_enumeration_dtos.py\<close>\<close>

datatype tool_discovery_method =
  MCP_JSON_PARSING | HTTP_DISCOVERY | STDIO_INTROSPECTION | COMBINED

datatype server_transport_type = STDIO | HTTP | SSE | WEBSOCKET | UNKNOWN

record tool_parameter =
  param_name :: string
  param_type :: string
  param_description :: "string option"
  param_required :: bool
  param_default :: "json option"
  param_enum :: "json list option"

record tool_schema =
  schema_type :: string
  schema_properties :: "(string \<times> tool_parameter) list"
  schema_required :: "string list"
  additionalProperties :: bool

record enumerated_tool =
  tool_name :: string
  tool_description :: "string option"
  tool_server_name :: string
  tool_transport_type :: server_transport_type
  input_schema :: "tool_schema option"
  metadata :: "(string \<times> json) list"
  discovery_method :: tool_discovery_method
  discovery_timestamp :: string

record server_enumeration_result =
  server_name :: string
  transport_type :: server_transport_type
  server_url :: "string option"
  res_command :: "string option"
  tools :: "enumerated_tool list"
  errors :: "string list"
  warnings :: "string list"
  discovery_duration_ms :: "int option"

record server_result =
  sr_name :: string
  sr_status :: string
  tool_count :: int
  sr_error :: "string option"

record simplified_tool =
  st_server :: string
  st_name :: string
  st_description :: "string option"
  inputSchema :: "json option"

record tool_enumeration_request =
  mcp_json :: mcp_json_config
  timeout_seconds :: int
  include_schemas :: bool
  parallel_discovery :: bool

record tool_enumeration_response =
  status :: string
  message :: string
  timestamp :: string
  servers :: "server_result list"
  resp_tools :: "simplified_tool list"
  total_servers :: int
  connected_servers :: int

text \<open>The bounds \<^verbatim>\<open>Field(30, ge=5, le=300)\<close> that the request model puts on
  \<^verbatim>\<open>timeout_seconds\<close>.\<close>

definition valid_request :: "tool_enumeration_request \<Rightarrow> bool" where
  "valid_request request = (5 \<le> timeout_seconds request \<and> timeout_seconds request \<le> 300)"

text \<open>\<^verbatim>\<open>Optional\<close> values and the result of \<^verbatim>\<open>.dict()\<close> as free-form values.\<close>

definition json_opt_str :: "string option \<Rightarrow> json" where
  "json_opt_str x = (case x of None \<Rightarrow> JNull | Some s \<Rightarrow> JStr s)"

definition parameter_dict :: "tool_parameter \<Rightarrow> json" where
  "parameter_dict p = JObj
     [(''name'', JStr (param_name p)),
      (''type'', JStr (param_type p)),
      (''description'', json_opt_str (param_description p)),
      (''required'', JBool (param_required p)),
      (''default'', (case param_default p of None \<Rightarrow> JNull | Some v \<Rightarrow> v)),
      (''enum'', (case param_enum p of None \<Rightarrow> JNull | Some vs \<Rightarrow> JArr vs))]"

definition schema_dict :: "tool_schema \<Rightarrow> json" where
  "schema_dict s = JObj
     [(''type'', JStr (schema_type s)),
      (''properties'', JObj (map (\<lambda>(k, p). (k, parameter_dict p)) (schema_properties s))),
      (''required'', JArr (map JStr (schema_required s))),
      (''additionalProperties'', JBool (additionalProperties s))]"

section \<open>The fallback strategy (\<^verbatim>\<open>mcp_json_strategy.py\<close>)\<close>

text \<open>\<^verbatim>\<open>_extract_server_url\<close>; the orchestrator has a copy of it, line for line.\<close>

definition extract_server_url :: "mcp_server_config \<Rightarrow> string option" where
  "extract_server_url server_config =
     (if truthy_opt (url server_config) then url server_config
      else if truthy_opt (command server_config) \<and> truthy_opt (args server_config) then
        (case args server_config of
           Some xs \<Rightarrow>
             List.find (\<lambda>arg. startswith arg ''https://'' \<or> startswith arg ''http://'') xs
         | None \<Rightarrow> None)
      else None)"

definition mcp_json_get_transport_type :: "mcp_server_config \<Rightarrow> server_transport_type" where
  "mcp_json_get_transport_type server_config =
     (if truthy_opt (url server_config) then HTTP
      else if truthy_opt (command server_config) then STDIO
      else UNKNOWN)"

text \<open>
  \<^verbatim>\<open>McpJsonParsingStrategy.discover_tools\<close>. The first argument is the reading of
  \<^verbatim>\<open>datetime.utcnow().isoformat()\<close>. Nothing in the \<^verbatim>\<open>try\<close> block can raise (every field
  of the tool has the type its model asks for), so the \<^verbatim>\<open>except\<close> branch has no image here.
  The result is the triple \<^verbatim>\<open>(tools, errors, warnings)\<close>.
\<close>

definition mcp_json_metadata :: "mcp_server_config \<Rightarrow> (string \<times> json) list" where
  "mcp_json_metadata server_config =
     [(''source'', JStr ''mcp_json_config''),
      (''command'', json_opt_str (command server_config)),
      (''url'', json_opt_str (extract_server_url server_config)),
      (''args'', (case args server_config of None \<Rightarrow> JNull | Some xs \<Rightarrow> JArr (map JStr xs))),
      (''env'', (case env server_config of None \<Rightarrow> JNull
                 | Some kvs \<Rightarrow> JObj (map (\<lambda>(k, v). (k, JStr v)) kvs))),
      (''note'', JStr ''Fallback tool created from MCP JSON configuration'')]"

definition mcp_json_discover_tools ::
  "string \<Rightarrow> string \<Rightarrow> mcp_server_config \<Rightarrow> enumerated_tool list \<times> string list \<times> string list"
where
  "mcp_json_discover_tools now name server_config =
     (let basic_tool =
        \<lparr> tool_name = name @ ''_config'',
          tool_description = Some (''Configuration-based tool for '' @ name),
          tool_server_name = name,
          tool_transport_type = mcp_json_get_transport_type server_config,
          input_schema = None,
          metadata = mcp_json_metadata server_config,
          discovery_method = MCP_JSON_PARSING,
          discovery_timestamp = now \<rparr>
      in ([basic_tool], [],
          [''Created fallback tool from MCP JSON config for '' @ name]))"

text \<open>What the process strategy records about the environment (\<^verbatim>\<open>stdio_strategy.py\<close>,
  line 236): \<^verbatim>\<open>list(server_config.env.keys()) if server_config.env else []\<close>.\<close>

definition stdio_env_vars :: "mcp_server_config \<Rightarrow> json" where
  "stdio_env_vars server_config =
     (case env server_config of
        Some kvs \<Rightarrow> (if kvs \<noteq> [] then JArr (map (JStr \<circ> fst) kvs) else JArr [])
      | None \<Rightarrow> JArr [])"

section \<open>The orchestrator (\<^verbatim>\<open>service.py\<close>)\<close>

text \<open>
  A strategy, as the orchestrator sees it. \<open>discover_tools\<close> is the outcome of
  \<^verbatim>\<open>await asyncio.wait_for(strategy.discover_tools(name, config, t), timeout=t)\<close>: the
  triple \<^verbatim>\<open>(tools, errors, warnings)\<close> the strategy returns, \<open>Inl TimeoutError\<close> when the
  deadline expires first, or \<open>Inl (Exception m)\<close> when the strategy raises. What a networked
  or a process server answers is not the program's to decide, so this outcome is a
  parameter of the model.
\<close>

record strategy =
  discover_tools ::
    "string \<Rightarrow> mcp_server_config \<Rightarrow> int \<Rightarrow>
       py_exception + (enumerated_tool list \<times> string list \<times> string list)"
  get_transport_type :: "mcp_server_config \<Rightarrow> server_transport_type"

text \<open>
  What the service reads from outside: its strategy dictionary \<^verbatim>\<open>self._strategies\<close>, the
  clock as \<^verbatim>\<open>datetime.utcnow().isoformat()\<close> prints it, and the milliseconds between the two
  clock readings of \<^verbatim>\<open>_enumerate_server_tools\<close> for a server.
\<close>

record world =
  strategies :: "tool_discovery_method \<Rightarrow> strategy option"
  utcnow_iso :: string
  elapsed_ms :: "string \<Rightarrow> int"

text \<open>\<^verbatim>\<open>repr\<close> of a member of the enum, which is what \<^verbatim>\<open>str\<close> of a \<^verbatim>\<open>KeyError\<close> prints.\<close>

fun method_repr :: "tool_discovery_method \<Rightarrow> string" where
  "method_repr MCP_JSON_PARSING = ''<ToolDiscoveryMethod.MCP_JSON_PARSING: 'mcp_json_parsing'>''"
| "method_repr HTTP_DISCOVERY = ''<ToolDiscoveryMethod.HTTP_DISCOVERY: 'http_discovery'>''"
| "method_repr STDIO_INTROSPECTION =
     ''<ToolDiscoveryMethod.STDIO_INTROSPECTION: 'stdio_introspection'>''"
| "method_repr COMBINED = ''<ToolDiscoveryMethod.COMBINED: 'combined'>''"

text \<open>\<^verbatim>\<open>self._strategies[key]\<close>: a missing key raises \<^verbatim>\<open>KeyError\<close>.\<close>

definition strategies_getitem ::
  "(tool_discovery_method \<Rightarrow> strategy option) \<Rightarrow> tool_discovery_method \<Rightarrow> py_exception + strategy"
where
  "strategies_getitem table key =
     (case table key of None \<Rightarrow> Inl (Exception (method_repr key)) | Some s \<Rightarrow> Inr s)"

text \<open>\<^verbatim>\<open>_auto_select_strategy\<close> (lines 250-267).\<close>

definition auto_select_strategy ::
  "(tool_discovery_method \<Rightarrow> strategy option) \<Rightarrow> mcp_server_config \<Rightarrow> py_exception + strategy"
where
  "auto_select_strategy table server_config =
     (if truthy_opt (url server_config) then strategies_getitem table HTTP_DISCOVERY
      else if truthy_opt (command server_config) then strategies_getitem table STDIO_INTROSPECTION
      else strategies_getitem table MCP_JSON_PARSING)"

text \<open>
  \<^verbatim>\<open>_enumerate_server_tools\<close>, in two parts: the body of its \<^verbatim>\<open>try\<close> (lines 192-225), where
  an exception is a value \<open>Inl\<close>, and the function with its two handlers (lines 227-248).
\<close>

definition strip_schema :: "enumerated_tool \<Rightarrow> enumerated_tool" where
  "strip_schema tool = tool\<lparr>input_schema := None\<rparr>"

definition try_enumerate_server_tools ::
  "world \<Rightarrow> string \<Rightarrow> mcp_server_config \<Rightarrow> int \<Rightarrow> bool \<Rightarrow>
     py_exception + server_enumeration_result"
where
  "try_enumerate_server_tools w name server_config timeout_secs include =
     (case auto_select_strategy (strategies w) server_config of
        Inl e \<Rightarrow> Inl e
      | Inr strategy \<Rightarrow>
          (case discover_tools strategy name server_config timeout_secs of
             Inl e \<Rightarrow> Inl e
           | Inr (found, errs, warns) \<Rightarrow>
               Inr \<lparr> server_name = name,
                     transport_type = get_transport_type strategy server_config,
                     server_url = extract_server_url server_config,
                     res_command = command server_config,
                     tools = (if \<not> include then map strip_schema found else found),
                     errors = errs,
                     warnings = warns,
                     discovery_duration_ms = Some (elapsed_ms w name) \<rparr>))"

definition enumerate_server_tools ::
  "world \<Rightarrow> string \<Rightarrow> mcp_server_config \<Rightarrow> int \<Rightarrow> bool \<Rightarrow>
     py_exception + server_enumeration_result"
where
  "enumerate_server_tools w name server_config timeout_secs include =
     (case try_enumerate_server_tools w name server_config timeout_secs include of
        Inr result \<Rightarrow> Inr result
      | Inl TimeoutError \<Rightarrow>
          Inr \<lparr> server_name = name,
                transport_type = UNKNOWN,
                server_url = extract_server_url server_config,
                res_command = command server_config,
                tools = [],
                errors = [''Discovery timeout after '' @ str_int timeout_secs @ '' seconds''],
                warnings = [],
                discovery_duration_ms = Some (timeout_secs * 1000) \<rparr>
      | Inl (Exception m) \<Rightarrow>
          Inr \<lparr> server_name = name,
                transport_type = UNKNOWN,
                server_url = extract_server_url server_config,
                res_command = command server_config,
                tools = [],
                errors = [''Discovery failed: '' @ m],
                warnings = [],
                discovery_duration_ms = Some 0 \<rparr>)"

text \<open>
  \<^verbatim>\<open>enumerate_tools\<close>, lines 86-126: the three lists \<^verbatim>\<open>servers\<close>, \<^verbatim>\<open>all_tools\<close> and
  \<^verbatim>\<open>global_errors\<close>, filled by one of two loops. Both loops are written over any per-server
  function \<open>f\<close>; the service passes \<^verbatim>\<open>_enumerate_server_tools\<close>.
\<close>

type_synonym collected =
  "server_enumeration_result list \<times> enumerated_tool list \<times> string list"

definition failed_message :: "string \<Rightarrow> py_exception \<Rightarrow> string" where
  "failed_message name e = ''Server '' @ name @ '' enumeration failed: '' @ exc_str e"

text \<open>The sequential loop (lines 115-126), in the order of \<^verbatim>\<open>mcpServers.items()\<close>.\<close>

fun sequential_loop ::
  "(string \<Rightarrow> mcp_server_config \<Rightarrow> py_exception + server_enumeration_result) \<Rightarrow>
     (string \<times> mcp_server_config) list \<Rightarrow> collected \<Rightarrow> collected"
where
  "sequential_loop f [] acc = acc"
| "sequential_loop f ((name, server_config) # rest) (srvs, all_tools, global_errors) =
     (case f name server_config of
        Inr result \<Rightarrow>
          sequential_loop f rest (srvs @ [result], all_tools @ tools result, global_errors)
      | Inl e \<Rightarrow>
          sequential_loop f rest (srvs, all_tools, global_errors @ [failed_message name e]))"

text \<open>
  The parallel branch (lines 94-112): \<^verbatim>\<open>asyncio.gather\<close> with
  \<^verbatim>\<open>return_exceptions=True\<close> returns the outcomes of the per-server calls in the order of
  \<^verbatim>\<open>mcpServers.items()\<close>, an exception as a value; the loop then
  walks \<^verbatim>\<open>enumerate(results)\<close> and, for an exception, looks the server's name up by
  position in \<^verbatim>\<open>list(mcpServers.keys())\<close>, which raises \<^verbatim>\<open>IndexError\<close> out of range.
\<close>

fun parallel_loop ::
  "string list \<Rightarrow> nat \<Rightarrow> (py_exception + server_enumeration_result) list \<Rightarrow> collected \<Rightarrow>
     py_exception + collected"
where
  "parallel_loop keys i [] acc = Inr acc"
| "parallel_loop keys i (r # results) (srvs, all_tools, global_errors) =
     (case r of
        Inl e \<Rightarrow>
          (if i < length keys then
             parallel_loop keys (Suc i) results
               (srvs, all_tools, global_errors @ [failed_message (keys ! i) e])
           else Inl (Exception ''list index out of range''))
      | Inr result \<Rightarrow>
          parallel_loop keys (Suc i) results
            (srvs @ [result], all_tools @ tools result, global_errors))"

definition collect ::
  "(string \<Rightarrow> mcp_server_config \<Rightarrow> py_exception + server_enumeration_result) \<Rightarrow>
     bool \<Rightarrow> (string \<times> mcp_server_config) list \<Rightarrow> py_exception + collected"
where
  "collect f parallel items =
     (if parallel then
        parallel_loop (map fst items) 0 (map (\<lambda>(name, server_config). f name server_config) items)
          ([], [], [])
      else Inr (sequential_loop f items ([], [], [])))"

text \<open>Lines 129-155: the loop that builds the simplified servers and tools and counts
  the connected servers.\<close>

definition simplify_tool :: "string \<Rightarrow> enumerated_tool \<Rightarrow> simplified_tool" where
  "simplify_tool name tool =
     \<lparr> st_server = name,
       st_name = tool_name tool,
       st_description = tool_description tool,
       inputSchema = (case input_schema tool of Some s \<Rightarrow> Some (schema_dict s) | None \<Rightarrow> None) \<rparr>"

definition server_status :: "server_enumeration_result \<Rightarrow> string" where
  "server_status server = (if errors server = [] then ''connected'' else ''error'')"

definition simplified_server :: "server_enumeration_result \<Rightarrow> server_result" where
  "simplified_server server =
     \<lparr> sr_name = server_name server,
       sr_status = server_status server,
       tool_count = int (length (tools server)),
       sr_error = (case errors server of [] \<Rightarrow> None | e # _ \<Rightarrow> Some e) \<rparr>"

fun simplify_loop ::
  "server_enumeration_result list \<Rightarrow> server_result list \<times> simplified_tool list \<times> int \<Rightarrow>
     server_result list \<times> simplified_tool list \<times> int"
where
  "simplify_loop [] acc = acc"
| "simplify_loop (server # rest) (simplified_servers, simplified_tools, connected_count) =
     simplify_loop rest
       (simplified_servers @ [simplified_server server],
        simplified_tools @ map (simplify_tool (server_name server)) (tools server),
        (if server_status server = ''connected'' then connected_count + 1
         else connected_count))"

text \<open>Lines 157-169: the response.\<close>

definition build_response ::
  "string \<Rightarrow> nat \<Rightarrow> server_enumeration_result list \<Rightarrow> tool_enumeration_response"
where
  "build_response now n_configured srvs =
     (case simplify_loop srvs ([], [], 0) of
        (simplified_servers, simplified_tools, connected_count) \<Rightarrow>
          \<lparr> status = (if connected_count > 0 then ''success'' else ''error''),
            message =
              (if connected_count = int n_configured then
                 ''Successfully connected to all '' @ str_int connected_count @ '' servers''
               else ''Connected to '' @ str_int connected_count @ '' of ''
                      @ str_int (int n_configured) @ '' servers''),
            timestamp = now,
            servers = simplified_servers,
            resp_tools = simplified_tools,
            total_servers = int n_configured,
            connected_servers = connected_count \<rparr>)"

text \<open>The lists of results that \<^verbatim>\<open>enumerate_tools\<close> aggregates, and the function
  itself; the outer handler (lines 178-180) re-raises.\<close>

definition server_results ::
  "world \<Rightarrow> tool_enumeration_request \<Rightarrow> py_exception + collected"
where
  "server_results w request =
     collect
       (\<lambda>name server_config.
          enumerate_server_tools w name server_config (timeout_seconds request)
            (include_schemas request))
       (parallel_discovery request) (mcpServers (mcp_json request))"

definition enumerate_tools ::
  "world \<Rightarrow> tool_enumeration_request \<Rightarrow> py_exception + tool_enumeration_response"
where
  "enumerate_tools w request =
     (case server_results w request of
        Inl e \<Rightarrow> Inl e
      | Inr (srvs, all_tools, global_errors) \<Rightarrow>
          Inr (build_response (utcnow_iso w) (length (mcpServers (mcp_json request))) srvs))"

text \<open>
  The fallback strategy as the container registers it. Its coroutine has no suspension
  point, so under \<^verbatim>\<open>asyncio.wait_for\<close> it completes before any positive deadline; a
  deadline that is not positive cancels it before it starts.
\<close>

definition McpJsonParsingStrategy :: "string \<Rightarrow> strategy" where
  "McpJsonParsingStrategy now =
     \<lparr> discover_tools =
         (\<lambda>name server_config timeout_secs.
            if timeout_secs \<le> 0 then Inl TimeoutError
            else Inr (mcp_json_discover_tools now name server_config)),
       get_transport_type = mcp_json_get_transport_type \<rparr>"

section \<open>The networked strategy (\<^verbatim>\<open>http_strategy.py\<close>)\<close>

subsection \<open>Dictionaries and iteration\<close>

text \<open>\<^verbatim>\<open>d.get(key)\<close> and \<^verbatim>\<open>d.get(key, default)\<close>; Python's \<^verbatim>\<open>None\<close> is \<open>JNull\<close>.\<close>

definition dict_get_default :: "(string \<times> json) list \<Rightarrow> string \<Rightarrow> json \<Rightarrow> json" where
  "dict_get_default d key fallback = (case map_of d key of Some v \<Rightarrow> v | None \<Rightarrow> fallback)"

definition dict_get :: "(string \<times> json) list \<Rightarrow> string \<Rightarrow> json" where
  "dict_get d key = dict_get_default d key JNull"

text \<open>\<^verbatim>\<open>key in d\<close>.\<close>

definition dict_has :: "(string \<times> json) list \<Rightarrow> string \<Rightarrow> bool" where
  "dict_has d key = (key \<in> set (map fst d))"

text \<open>
  What \<^verbatim>\<open>for x in value\<close> walks through: the items of a list, the keys of a dict, the
  characters of a string; any other value raises \<^verbatim>\<open>TypeError\<close>.
\<close>

fun py_iter :: "json \<Rightarrow> py_exception + json list" where
  "py_iter (JArr xs) = Inr xs"
| "py_iter (JObj d) = Inr (map (JStr \<circ> fst) d)"
| "py_iter (JStr s) = Inr (map (\<lambda>c. JStr [c]) s)"
| "py_iter v = Inl (Exception ''object is not iterable'')"

text \<open>\<^verbatim>\<open>s.rstrip('/')\<close>.\<close>

definition rstrip_slash :: "string \<Rightarrow> string" where
  "rstrip_slash s = rev (dropWhile (\<lambda>c. c = CHR ''/'') (rev s))"

subsection \<open>Normalising one tool entry\<close>

text \<open>
  The block that the three discovery methods repeat word for word (lines 114-134,
  212-232 and 273-293). The test of line 115 decides whether the entry is a wrapper
  \<^verbatim>\<open>{tool_name: {...}}\<close>; the block then yields \<^verbatim>\<open>actual_name\<close>, \<^verbatim>\<open>description\<close> and
  \<^verbatim>\<open>schema_data\<close>. The first argument is the position of the entry, for the placeholder
  name \<^verbatim>\<open>tool_{i}\<close>.
\<close>

definition direct_fields :: "string list" where
  "direct_fields = [''name'', ''description'', ''inSchema'', ''inputSchema'']"

definition is_nested :: "(string \<times> json) list \<Rightarrow> bool" where
  "is_nested tool_data =
     (length tool_data = 1 \<and> \<not> list_ex (\<lambda>key. dict_has tool_data key) direct_fields)"

definition normalize_tool_entry :: "nat \<Rightarrow> (string \<times> json) list \<Rightarrow> json \<times> json \<times> json" where
  "normalize_tool_entry i tool_data =
     (if is_nested tool_data then
        (let tool_name = fst (hd tool_data);
             tool_details = dict_get tool_data tool_name
         in case tool_details of
              JObj details \<Rightarrow>
                (dict_get_default details ''name'' (JStr tool_name),
                 dict_get details ''description'',
                 dict_get_default details ''inSchema''
                   (dict_get_default details ''inputSchema'' (dict_get details ''schema'')))
            | _ \<Rightarrow> (JStr tool_name, JNull, JNull))
      else
        (let tool_name = dict_get tool_data ''name'';
             tool_name =
               (if \<not> truthy tool_name then
                  dict_get_default tool_data ''id''
                    (dict_get_default tool_data ''tool_name'' (JStr (''tool_'' @ str_nat i)))
                else tool_name)
         in (tool_name,
             dict_get_default tool_data ''description'' (dict_get tool_data ''summary''),
             dict_get_default tool_data ''inputSchema''
               (dict_get_default tool_data ''inSchema'' (dict_get tool_data ''schema'')))))"

text \<open>
  \<^verbatim>\<open>_convert_tool_schema\<close> (lines 323-350). The parameter \<open>build\<close> stands for the body of
  its \<^verbatim>\<open>try\<close> block on a dict, where pydantic validates the \<^verbatim>\<open>ToolParameter\<close> and
  \<^verbatim>\<open>ToolSchema\<close> models: it is \<open>None\<close> when the block raises. Whatever \<open>build\<close> is, the
  function never raises.
\<close>

definition convert_tool_schema ::
  "((string \<times> json) list \<Rightarrow> tool_schema option) \<Rightarrow> json \<Rightarrow> tool_schema option"
where
  "convert_tool_schema build schema_data =
     (if \<not> truthy schema_data then None
      else case schema_data of JObj d \<Rightarrow> build d | _ \<Rightarrow> None)"

text \<open>
  The validation pydantic makes of the two fields of \<^verbatim>\<open>EnumeratedTool\<close> that come from
  the server: \<^verbatim>\<open>name: str\<close> and \<^verbatim>\<open>description: Optional[str]\<close>. \<open>None\<close> is a
  \<^verbatim>\<open>ValidationError\<close>.
\<close>

fun validate_str :: "json \<Rightarrow> string option" where
  "validate_str (JStr s) = Some s"
| "validate_str v = None"

fun validate_optional_str :: "json \<Rightarrow> string option option" where
  "validate_optional_str JNull = Some None"
| "validate_optional_str (JStr s) = Some (Some s)"
| "validate_optional_str v = None"

text \<open>What the probe needs to know of the call: the schema builder, the clock, and the
  arguments \<^verbatim>\<open>server_url\<close>, \<^verbatim>\<open>headers\<close> and \<^verbatim>\<open>server_name\<close>.\<close>

record probe =
  build_schema :: "(string \<times> json) list \<Rightarrow> tool_schema option"
  probe_now :: string
  probe_url :: string
  probe_headers :: "(string \<times> string) list"
  probe_server :: string

text \<open>Lines 113-151 of \<^verbatim>\<open>_discover_public_info\<close>: the tool made of one dict entry.\<close>

definition public_info_tool ::
  "probe \<Rightarrow> string \<Rightarrow> nat \<Rightarrow> (string \<times> json) list \<Rightarrow> py_exception + enumerated_tool"
where
  "public_info_tool p endpoint i tool_data =
     (case normalize_tool_entry i tool_data of
        (actual_name, description, schema_data) \<Rightarrow>
          (case (validate_str actual_name, validate_optional_str description) of
             (Some n, Some d) \<Rightarrow>
               Inr \<lparr> tool_name = n,
                     tool_description = d,
                     tool_server_name = probe_server p,
                     tool_transport_type = HTTP,
                     input_schema = convert_tool_schema (build_schema p) schema_data,
                     metadata =
                       [(''source_url'', JStr (probe_url p)),
                        (''endpoint'', JStr endpoint),
                        (''protocol'', JStr ''public-info''),
                        (''raw_tool_data'', JObj tool_data)],
                     discovery_method = HTTP_DISCOVERY,
                     discovery_timestamp = probe_now p \<rparr>
           | _ \<Rightarrow> Inl (Exception ''ValidationError'')))"

text \<open>
  The loop of line 112 over \<^verbatim>\<open>enumerate(tools_data)\<close>. It appends to the list \<^verbatim>\<open>tools\<close>
  of the whole function; when an entry raises, the tools appended so far stay in the
  list. The result is the list and the exception, if any.
\<close>

fun entries_loop ::
  "probe \<Rightarrow> string \<Rightarrow> nat \<Rightarrow> json list \<Rightarrow> enumerated_tool list \<Rightarrow>
     enumerated_tool list \<times> py_exception option"
where
  "entries_loop p endpoint i [] found = (found, None)"
| "entries_loop p endpoint i (tool_data # rest) found =
     (case tool_data of
        JObj d \<Rightarrow>
          (case public_info_tool p endpoint i d of
             Inl e \<Rightarrow> (found, Some e)
           | Inr tool \<Rightarrow> entries_loop p endpoint (Suc i) rest (found @ [tool]))
      | _ \<Rightarrow> entries_loop p endpoint (Suc i) rest found)"

text \<open>Lines 108-110: where the tool collection is looked for in the body.\<close>

definition tools_data_of :: "json \<Rightarrow> json" where
  "tools_data_of data =
     (case data of
        JObj d \<Rightarrow> dict_get_default d ''tools'' (dict_get_default d ''data'' (JArr []))
      | _ \<Rightarrow> data)"

text \<open>
  The server, as the probe sees it: what \<^verbatim>\<open>await client.get(url, headers=headers)\<close>
  gives for a URL, an exception or a response. \<open>json_body\<close> is \<open>None\<close> when
  \<^verbatim>\<open>response.json()\<close> raises.
\<close>

record http_response =
  status_code :: int
  json_body :: "json option"

type_synonym http_server = "string \<Rightarrow> (string \<times> string) list \<Rightarrow> py_exception + http_response"

text \<open>
  One pass of the loop over the endpoints (lines 100-158), after the GET: the list
  \<^verbatim>\<open>tools\<close> after the pass, and whether the pass returns it (line 155). Every exception
  of the pass is swallowed by the handler of line 156.
\<close>

definition probe_endpoint ::
  "probe \<Rightarrow> http_server \<Rightarrow> string \<Rightarrow> enumerated_tool list \<Rightarrow> enumerated_tool list \<times> bool"
where
  "probe_endpoint p server endpoint found =
     (case server (rstrip_slash (probe_url p) @ endpoint) (probe_headers p) of
        Inl e \<Rightarrow> (found, False)
      | Inr response \<Rightarrow>
          (if status_code response = 200 then
             (case json_body response of
                None \<Rightarrow> (found, False)
              | Some data \<Rightarrow>
                  (case py_iter (tools_data_of data) of
                     Inl e \<Rightarrow> (found, False)
                   | Inr entries \<Rightarrow>
                       (case entries_loop p endpoint 0 entries found of
                          (found', Some e) \<Rightarrow> (found', False)
                        | (found', None) \<Rightarrow> (found', found' \<noteq> []))))
           else (found, False)))"

text \<open>The loop over the endpoints, with the log of the URLs it has sent a GET to, and
  lines 160-162 after it.\<close>

fun public_info_loop ::
  "probe \<Rightarrow> http_server \<Rightarrow> string list \<Rightarrow> enumerated_tool list \<Rightarrow> string list \<Rightarrow>
     string list \<times> (py_exception + enumerated_tool list)"
where
  "public_info_loop p server [] found log =
     (log, if found = [] then Inl (Exception ''No valid public info endpoints found'')
           else Inr found)"
| "public_info_loop p server (endpoint # rest) found log =
     (case probe_endpoint p server endpoint found of
        (found', True) \<Rightarrow> (log @ [rstrip_slash (probe_url p) @ endpoint], Inr found')
      | (found', False) \<Rightarrow>
          public_info_loop p server rest found'
            (log @ [rstrip_slash (probe_url p) @ endpoint]))"

text \<open>\<^verbatim>\<open>_discover_public_info\<close>: the URLs it has sent a GET to, in order, and its outcome.
  Line 97 reverses the list it declares.\<close>

definition discover_public_info ::
  "probe \<Rightarrow> http_server \<Rightarrow> string list \<times> (py_exception + enumerated_tool list)"
where
  "discover_public_info p server =
     public_info_loop p server (rev [''/info'', ''/.well-known/mcp'', ''/api/info'', ''/'']) [] []"

text \<open>
  A pass over an endpoint that starts with an empty list: the tools it leaves in the
  list, and whether it returns. It returns exactly when the GET gives a response with
  status 200 whose JSON body is walked to the end without an exception and gives at least
  one tool.
\<close>

definition body_tools :: "probe \<Rightarrow> http_server \<Rightarrow> string \<Rightarrow> enumerated_tool list" where
  "body_tools p server endpoint = fst (probe_endpoint p server endpoint [])"

definition yields_tools :: "probe \<Rightarrow> http_server \<Rightarrow> string \<Rightarrow> bool" where
  "yields_tools p server endpoint = snd (probe_endpoint p server endpoint [])"

text \<open>The paths in the order the loop takes them, and the URL of a path.\<close>

definition probe_order :: "string list" where
  "probe_order = [''/'', ''/api/info'', ''/.well-known/mcp'', ''/info'']"

definition endpoint_url :: "probe \<Rightarrow> string \<Rightarrow> string" where
  "endpoint_url p endpoint = rstrip_slash (probe_url p) @ endpoint"

section \<open>The process strategy (\<^verbatim>\<open>stdio_strategy.py\<close>)\<close>

subsection \<open>Strings and exceptions\<close>

text \<open>\<^verbatim>\<open>needle in haystack\<close> on strings, and \<^verbatim>\<open>s.lower()\<close> on ASCII.\<close>

fun contains :: "string \<Rightarrow> string \<Rightarrow> bool" where
  "contains [] needle = (needle = [])"
| "contains (c # cs) needle = (startswith (c # cs) needle \<or> contains cs needle)"

definition lower_char :: "char \<Rightarrow> char" where
  "lower_char c =
     (if (65::nat) \<le> of_char c \<and> of_char c \<le> (90::nat) then char_of (of_char c + (32::nat))
      else c)"

definition lower :: "string \<Rightarrow> string" where
  "lower s = map lower_char s"

text \<open>The character \<^verbatim>\<open>'\<close> as a string.\<close>

definition apostrophe :: string where
  "apostrophe = [CHR 0x27]"

text \<open>
  The exceptions the strategy tells apart, each with its \<^verbatim>\<open>str(e)\<close>.
  \<^verbatim>\<open>asyncio.CancelledError\<close> is what the coroutine receives at a suspension point when the
  orchestrator's deadline expires; it is not an \<^verbatim>\<open>Exception\<close>, so \<^verbatim>\<open>except Exception\<close>
  lets it pass.
\<close>

datatype stdio_exception =
    BrokenPipeError string
  | JSONDecodeError string
  | TimeoutExpired string
  | CancelledError
  | OtherException string

fun stdio_exc_str :: "stdio_exception \<Rightarrow> string" where
  "stdio_exc_str (BrokenPipeError m) = m"
| "stdio_exc_str (JSONDecodeError m) = m"
| "stdio_exc_str (TimeoutExpired m) = m"
| "stdio_exc_str CancelledError = []"
| "stdio_exc_str (OtherException m) = m"

subsection \<open>The child process and the world around it\<close>

text \<open>What the strategy does to the process it has spawned, and whether the process is
  still running.\<close>

datatype action = Terminate | Wait int | Kill

record process =
  running :: bool
  actions :: "action list"

text \<open>
  A line read from the child's standard output: empty (end of file), not empty and
  rejected by \<^verbatim>\<open>json.loads\<close> with a message, or not empty and parsed. A read under
  \<^verbatim>\<open>asyncio.wait_for\<close> gives a line, runs out of time, or raises.
\<close>

datatype line = Empty | Undecodable string | Decoded json

datatype read_outcome = Line line | ReadTimeout | ReadRaises stdio_exception

text \<open>
  Everything the strategy does not decide: whether \<^verbatim>\<open>shutil.which\<close> finds the command,
  whether \<^verbatim>\<open>Popen\<close> raises, what each suspension point, write and read of the handshake
  gives (a read is given its timeout), whether \<^verbatim>\<open>process.terminate()\<close> raises and whether
  \<^verbatim>\<open>process.wait(timeout=5)\<close> returns (the child has exited by then) or raises
  \<^verbatim>\<open>TimeoutExpired\<close>; and, of the library, \<^verbatim>\<open>str\<close> of a parsed value, \<^verbatim>\<open>str\<close> of
  pydantic's \<^verbatim>\<open>ValidationError\<close>, the schema builder and the clock.
\<close>

record stdio_world =
  which :: "string \<Rightarrow> bool"
  popen :: "string list \<Rightarrow> stdio_exception option"
  settle_sleep :: "stdio_exception option"
  exited_early :: bool
  init_write :: "stdio_exception option"
  init_read :: "int \<Rightarrow> read_outcome"
  notify_write :: "stdio_exception option"
  protocol_sleep :: "stdio_exception option"
  tools_write :: "stdio_exception option"
  tools_read :: "int \<Rightarrow> read_outcome"
  terminate_raises :: bool
  wait_returns :: bool
  py_str :: "json \<Rightarrow> string"
  validation_text :: string
  stdio_build_schema :: "(string \<times> json) list \<Rightarrow> tool_schema option"
  stdio_now :: string

subsection \<open>The handshake\<close>

text \<open>
  How a block of the function ends: with \<^verbatim>\<open>return tools, errors, warnings\<close>, by running
  to its end, or with an exception. The three lists come with it.
\<close>

datatype flow = Returns | Completes | Raises stdio_exception

type_synonym lists = "enumerated_tool list \<times> string list \<times> string list"

definition package_runners :: "string list" where
  "package_runners = [''npx'', ''uvx'', ''uv'']"

fun py_type_name :: "json \<Rightarrow> string" where
  "py_type_name JNull = ''NoneType''"
| "py_type_name (JBool b) = ''bool''"
| "py_type_name (JNum n) = ''int''"
| "py_type_name (JStr s) = ''str''"
| "py_type_name (JArr xs) = ''list''"
| "py_type_name (JObj d) = ''dict''"

text \<open>\<^verbatim>\<open>"error" in data\<close> and \<^verbatim>\<open>data["error"]\<close> on a parsed value.\<close>

fun error_in :: "json \<Rightarrow> stdio_exception + bool" where
  "error_in (JObj d) = Inr (dict_has d ''error'')"
| "error_in (JArr xs) = Inr (JStr ''error'' \<in> set xs)"
| "error_in (JStr s) = Inr (contains s ''error'')"
| "error_in v =
     Inl (OtherException (''argument of type '' @ apostrophe @ py_type_name v @ apostrophe @ '' is not iterable''))"

fun error_of :: "json \<Rightarrow> stdio_exception + json" where
  "error_of (JObj d) =
     (case map_of d ''error'' of Some v \<Rightarrow> Inr v | None \<Rightarrow> Inl (OtherException (apostrophe @ ''error'' @ apostrophe)))"
| "error_of (JArr xs) =
     Inl (OtherException ''list indices must be integers or slices, not str'')"
| "error_of (JStr s) = Inl (OtherException (''string indices must be integers, not '' @ apostrophe @ ''str'' @ apostrophe))"
| "error_of v =
     Inl (OtherException (apostrophe @ py_type_name v @ apostrophe @ '' object is not subscriptable''))"

text \<open>Lines 225-242: the loop over \<^verbatim>\<open>tools_list\<close>. A tool that pydantic rejects raises,
  with the tools made so far in the list.\<close>

definition stdio_tool ::
  "stdio_world \<Rightarrow> string \<Rightarrow> mcp_server_config \<Rightarrow> nat \<Rightarrow> (string \<times> json) list \<Rightarrow>
     stdio_exception + enumerated_tool"
where
  "stdio_tool w name server_config n tool_data =
     (case (validate_str
              (dict_get_default tool_data ''name'' (JStr (''unknown_tool_'' @ str_nat n))),
            validate_optional_str (dict_get tool_data ''description'')) of
        (Some nm, Some d) \<Rightarrow>
          Inr \<lparr> tool_name = nm,
                tool_description = d,
                tool_server_name = name,
                tool_transport_type = STDIO,
                input_schema =
                  convert_tool_schema (stdio_build_schema w) (dict_get tool_data ''inputSchema''),
                metadata =
                  [(''command'', json_opt_str (command server_config)),
                   (''args'', (case args server_config of None \<Rightarrow> JNull
                               | Some xs \<Rightarrow> JArr (map JStr xs))),
                   (''env_vars'', stdio_env_vars server_config),
                   (''raw_tool_data'', JObj tool_data)],
                discovery_method = STDIO_INTROSPECTION,
                discovery_timestamp = stdio_now w \<rparr>
      | _ \<Rightarrow> Inl (OtherException (validation_text w)))"

fun stdio_tools_loop ::
  "stdio_world \<Rightarrow> string \<Rightarrow> mcp_server_config \<Rightarrow> json list \<Rightarrow> enumerated_tool list \<Rightarrow>
     flow \<times> lists"
where
  "stdio_tools_loop w name server_config [] found = (Completes, (found, [], []))"
| "stdio_tools_loop w name server_config (tool_data # rest) found =
     (case tool_data of
        JObj d \<Rightarrow>
          (case stdio_tool w name server_config (length found) d of
             Inl e \<Rightarrow> (Raises e, (found, [], []))
           | Inr tool \<Rightarrow> stdio_tools_loop w name server_config rest (found @ [tool]))
      | _ \<Rightarrow> stdio_tools_loop w name server_config rest found)"

text \<open>Lines 209-252: the tool collection is looked for in the parsed response, in a
  fixed order of shapes.\<close>

definition find_tools_list :: "(string \<times> json) list \<Rightarrow> json" where
  "find_tools_list tools_data =
     (if dict_has tools_data ''result'' then
        (case dict_get tools_data ''result'' of
           JObj result \<Rightarrow> (if dict_has result ''tools'' then dict_get result ''tools'' else JArr [])
         | JArr result \<Rightarrow> JArr result
         | _ \<Rightarrow> JArr [])
      else if dict_has tools_data ''tools'' then dict_get tools_data ''tools''
      else (case dict_get tools_data ''result'' of JArr result \<Rightarrow> JArr result | _ \<Rightarrow> JArr []))"

definition parse_tools ::
  "stdio_world \<Rightarrow> string \<Rightarrow> mcp_server_config \<Rightarrow> json \<Rightarrow> flow \<times> lists"
where
  "parse_tools w name server_config tools_data =
     (case tools_data of
        JObj d \<Rightarrow>
          (case find_tools_list d of
             JArr tools_list \<Rightarrow>
               (if tools_list \<noteq> [] then stdio_tools_loop w name server_config tools_list []
                else (Completes, ([], [], [''No tools found in response from '' @ name])))
           | _ \<Rightarrow> (Completes, ([], [], [''No tools found in response from '' @ name])))
      | _ \<Rightarrow> (Completes, ([], [], [''No valid tools response received from '' @ name])))"

text \<open>Lines 188-252: what is done with the line read after \<^verbatim>\<open>tools/list\<close>.\<close>

definition tools_response ::
  "stdio_world \<Rightarrow> string \<Rightarrow> mcp_server_config \<Rightarrow> line \<Rightarrow> flow \<times> lists"
where
  "tools_response w name server_config l =
     (case l of
        Empty \<Rightarrow> (Completes, ([], [], [''No valid tools response received from '' @ name]))
      | Undecodable m \<Rightarrow> (Raises (JSONDecodeError m), ([], [], []))
      | Decoded tools_data \<Rightarrow>
          (case error_in tools_data of
             Inl e \<Rightarrow> (Raises e, ([], [], []))
           | Inr False \<Rightarrow> parse_tools w name server_config tools_data
           | Inr True \<Rightarrow>
               (case error_of tools_data of
                  Inl e \<Rightarrow> (Raises e, ([], [], []))
                | Inr (JObj error_info) \<Rightarrow>
                    (Returns,
                     ([],
                      [''MCP server error ''
                         @ py_str w (dict_get_default error_info ''code'' (JStr ''unknown''))
                         @ '': ''
                         @ py_str w
                             (dict_get_default error_info ''message'' (JStr ''Unknown error''))],
                      []))
                | Inr v \<Rightarrow>
                    (Raises (OtherException
                       (apostrophe @ py_type_name v @ apostrophe @ '' object has no attribute '' @ apostrophe
                          @ ''get'' @ apostrophe)),
                     ([], [], [])))))"

text \<open>Lines 160-207: the notification, the pause for \<^verbatim>\<open>uvx\<close> and \<^verbatim>\<open>uv\<close>, and the
  \<^verbatim>\<open>tools/list\<close> request with its read.\<close>

definition after_initialize ::
  "stdio_world \<Rightarrow> string \<Rightarrow> mcp_server_config \<Rightarrow> string \<Rightarrow> int \<Rightarrow> flow \<times> lists"
where
  "after_initialize w name server_config cmd process_timeout =
     (case notify_write w of
        Some e \<Rightarrow> (Raises e, ([], [], []))
      | None \<Rightarrow>
          (case (if cmd \<in> set [''uvx'', ''uv''] then protocol_sleep w else None) of
             Some e \<Rightarrow> (Raises e, ([], [], []))
           | None \<Rightarrow>
               (case tools_write w of
                  Some (BrokenPipeError m) \<Rightarrow>
                    (Returns, ([], [''Broken pipe when requesting tools from '' @ name], []))
                | Some e \<Rightarrow> (Raises e, ([], [], []))
                | None \<Rightarrow>
                    (case tools_read w process_timeout of
                       ReadRaises e \<Rightarrow> (Raises e, ([], [], []))
                     | ReadTimeout \<Rightarrow> (Returns, ([], [''Tools list timeout for '' @ name], []))
                     | Line l \<Rightarrow> tools_response w name server_config l))))"

text \<open>Lines 145-154: what is done with the line read after \<^verbatim>\<open>initialize\<close>; \<open>None\<close> when
  the handshake goes on.\<close>

definition init_response :: "stdio_world \<Rightarrow> string \<Rightarrow> line \<Rightarrow> (flow \<times> lists) option" where
  "init_response w name l =
     (case l of
        Empty \<Rightarrow> None
      | Undecodable m \<Rightarrow> Some (Raises (JSONDecodeError m), ([], [], []))
      | Decoded init_data \<Rightarrow>
          (case error_in init_data of
             Inl e \<Rightarrow> Some (Raises e, ([], [], []))
           | Inr False \<Rightarrow> None
           | Inr True \<Rightarrow>
               (case error_of init_data of
                  Inl e \<Rightarrow> Some (Raises e, ([], [], []))
                | Inr v \<Rightarrow>
                    Some (Returns,
                      ([], [''Initialization failed for '' @ name @ '': '' @ py_str w v], [])))))"

text \<open>Lines 115-252: the body of the inner \<^verbatim>\<open>try\<close>.\<close>

definition handshake ::
  "stdio_world \<Rightarrow> string \<Rightarrow> mcp_server_config \<Rightarrow> string \<Rightarrow> int \<Rightarrow> flow \<times> lists"
where
  "handshake w name server_config cmd timeout_secs =
     (let process_timeout = (if cmd = ''npx'' then min timeout_secs 30 else min timeout_secs 10)
      in case settle_sleep w of
           Some e \<Rightarrow> (Raises e, ([], [], []))
         | None \<Rightarrow>
             (if exited_early w then
                (Returns, ([], [''Process for '' @ name @ '' terminated early''], []))
              else
                (case init_write w of
                   Some (BrokenPipeError m) \<Rightarrow>
                     (Returns, ([], [''Broken pipe when initializing '' @ name], []))
                 | Some e \<Rightarrow> (Raises e, ([], [], []))
                 | None \<Rightarrow>
                     (case init_read w process_timeout of
                        ReadRaises e \<Rightarrow> (Raises e, ([], [], []))
                      | ReadTimeout \<Rightarrow>
                          (Returns, ([], [''Initialization timeout for '' @ name], []))
                      | Line l \<Rightarrow>
                          (case init_response w name l of
                             Some ended \<Rightarrow> ended
                           | None \<Rightarrow>
                               after_initialize w name server_config cmd process_timeout)))))"

subsection \<open>Teardown and the whole function\<close>

text \<open>
  Lines 258-263, the \<^verbatim>\<open>finally\<close> block: \<^verbatim>\<open>terminate()\<close>, then \<^verbatim>\<open>wait(timeout=5)\<close>,
  and \<^verbatim>\<open>kill()\<close> when either raises. A child that \<^verbatim>\<open>wait\<close> has seen exit, or that has been
  sent \<^verbatim>\<open>SIGKILL\<close>, runs no more.
\<close>

definition teardown :: "stdio_world \<Rightarrow> process \<Rightarrow> process" where
  "teardown w proc =
     (if terminate_raises w then
        proc\<lparr>running := False, actions := actions proc @ [Terminate, Kill]\<rparr>
      else if wait_returns w then
        proc\<lparr>running := False, actions := actions proc @ [Terminate, Wait 5]\<rparr>
      else proc\<lparr>running := False, actions := actions proc @ [Terminate, Wait 5, Kill]\<rparr>)"

text \<open>Lines 269-287: the message of the outer handler, with its hint for the package
  runners.\<close>

definition failure_message :: "string \<Rightarrow> string \<Rightarrow> string \<Rightarrow> string" where
  "failure_message cmd name msg =
     (let error_msg = ''STDIO discovery failed for '' @ name @ '': '' @ msg
      in if cmd \<in> set package_runners then
           (if contains msg ''No module named'' then
              error_msg @ '' (Python package may not be available for uvx)''
            else if contains msg ''command not found'' then
              error_msg @ '' (mcp-proxy package may not be installed)''
            else if contains msg ''Connection refused'' then
              error_msg @ '' (Target MCP server may be unreachable)''
            else if contains (lower msg) ''timeout'' then
              error_msg @ '' (npx/uvx execution or package installation timed out)''
            else if contains msg ''Invalid argument'' then
              error_msg @ '' (Package may require specific arguments - check package documentation)''
            else if contains msg ''npm WARN'' then
              error_msg @ '' (Package installation warnings - may still work)''
            else error_msg)
         else error_msg)"

text \<open>The outer handler (line 268): \<^verbatim>\<open>except Exception\<close> does not catch a
  cancellation.\<close>

definition outer_handler ::
  "string \<Rightarrow> string \<Rightarrow> stdio_exception \<Rightarrow> lists \<Rightarrow> stdio_exception + lists"
where
  "outer_handler cmd name e ls =
     (case e of
        CancelledError \<Rightarrow> Inl CancelledError
      | _ \<Rightarrow>
          (case ls of
             (found, errs, warns) \<Rightarrow>
               Inr (found, errs @ [failure_message cmd name (stdio_exc_str e)], warns)))"

text \<open>Lines 265-266, after the \<^verbatim>\<open>finally\<close> block.\<close>

definition no_tools_warning :: "string \<Rightarrow> lists \<Rightarrow> lists" where
  "no_tools_warning name ls =
     (case ls of
        (found, errs, warns) \<Rightarrow>
          (if found = [] \<and> errs = [] then
             (found, errs, warns @ [''STDIO server '' @ name @ '': No tools discovered''])
           else ls))"

text \<open>
  Lines 114-266 for a process that has been spawned: the inner \<^verbatim>\<open>try\<close> with its two
  handlers and its \<^verbatim>\<open>finally\<close>, which runs however the body ends. The result is the
  process as the function leaves it, and what the function returns or raises.
\<close>

definition with_process ::
  "stdio_world \<Rightarrow> string \<Rightarrow> mcp_server_config \<Rightarrow> string \<Rightarrow> int \<Rightarrow> process \<Rightarrow>
     process \<times> (stdio_exception + lists)"
where
  "with_process w name server_config cmd timeout_secs proc =
     (case handshake w name server_config cmd timeout_secs of
        (Returns, ls) \<Rightarrow> (teardown w proc, Inr ls)
      | (Completes, ls) \<Rightarrow> (teardown w proc, Inr (no_tools_warning name ls))
      | (Raises (TimeoutExpired m), (found, errs, warns)) \<Rightarrow>
          (teardown w proc,
           Inr (no_tools_warning name
                  (found,
                   errs @ [''STDIO server '' @ name @ '' timed out after ''
                             @ str_int timeout_secs @ '' seconds''],
                   warns)))
      | (Raises (JSONDecodeError m), (found, errs, warns)) \<Rightarrow>
          (teardown w proc,
           Inr (no_tools_warning name
                  (found, errs @ [''Invalid JSON response from '' @ name @ '': '' @ m], warns)))
      | (Raises e, ls) \<Rightarrow> (teardown w proc, outer_handler cmd name e ls))"

text \<open>
  \<^verbatim>\<open>StdioToolDiscoveryStrategy.discover_tools\<close>: the process it has spawned, if any, as
  it leaves it, and what it returns or raises.
\<close>

definition stdio_discover_tools ::
  "stdio_world \<Rightarrow> string \<Rightarrow> mcp_server_config \<Rightarrow> int \<Rightarrow>
     process option \<times> (stdio_exception + lists)"
where
  "stdio_discover_tools w name server_config timeout_secs =
     (case command server_config of
        None \<Rightarrow> (None, Inr ([], [''No command provided for STDIO server: '' @ name], []))
      | Some cmd \<Rightarrow>
          (if cmd = [] then
             (None, Inr ([], [''No command provided for STDIO server: '' @ name], []))
           else if \<not> which w cmd then
             (None,
              Inr ([], [''Command '' @ apostrophe @ cmd @ apostrophe @ '' not found in PATH for server '' @ name], []))
           else if cmd \<in> set package_runners \<and> \<not> truthy_opt (args server_config) then
             (None,
              Inr ([], [cmd @ '' requires package name as argument for server '' @ name], []))
           else
             (case args server_config of
                None \<Rightarrow>
                  (None,
                   outer_handler cmd name
                     (OtherException
                        (''can only concatenate list (not '' @ [CHR 0x22] @ ''NoneType''
                           @ [CHR 0x22] @ '') to list''))
                     ([], [], []))
              | Some arguments \<Rightarrow>
                  (case popen w (cmd # arguments) of
                     Some e \<Rightarrow> (None, outer_handler cmd name e ([], [], []))
                   | None \<Rightarrow>
                       (case with_process w name server_config cmd timeout_secs
                               \<lparr> running = True, actions = [] \<rparr> of
                          (proc, outcome) \<Rightarrow> (Some proc, outcome))))))"

text \<open>When the function spawns a process.\<close>

definition spawns :: "stdio_world \<Rightarrow> mcp_server_config \<Rightarrow> bool" where
  "spawns w server_config =
     (case (command server_config, args server_config) of
        (Some cmd, Some arguments) \<Rightarrow>
          cmd \<noteq> [] \<and> which w cmd \<and> \<not> (cmd \<in> set package_runners \<and> arguments = []) \<and>
          popen w (cmd # arguments) = None
      | _ \<Rightarrow> False)"

section \<open>Auxiliary notions and sample inputs\<close>


text \<open>A configuration with neither a usable \<^verbatim>\<open>url\<close> nor a usable \<^verbatim>\<open>command\<close>, by the
  test the selector makes.\<close>

definition no_transport :: "mcp_server_config \<Rightarrow> bool" where
  "no_transport server_config =
     (\<not> truthy_opt (url server_config) \<and> \<not> truthy_opt (command server_config))"

text \<open>Three configurations, one per transport class, and one that carries a secret in
  its environment.\<close>

definition url_config :: mcp_server_config where
  "url_config = \<lparr> command = None, args = None, env = None, url = Some ''http://x/'',
                   headers = None, timeout = Some 30 \<rparr>"

definition command_config :: mcp_server_config where
  "command_config = \<lparr> command = Some ''server-bin'', args = Some [], env = None, url = None,
                       headers = None, timeout = Some 30 \<rparr>"

definition bare_config :: mcp_server_config where
  "bare_config = \<lparr> command = None, args = None, env = None, url = None,
                    headers = None, timeout = Some 30 \<rparr>"

definition secret_config :: mcp_server_config where
  "secret_config =
     \<lparr> command = None, args = None, env = Some [(''API_TOKEN'', ''s3cret'')],
       url = None, headers = None, timeout = Some 30 \<rparr>"

text \<open>A server that never answers before the deadline, one whose discovery raises, and
  one that answers with a single tool that has a schema.\<close>

definition hanging_strategy :: strategy where
  "hanging_strategy =
     \<lparr> discover_tools = (\<lambda>name server_config t. Inl TimeoutError),
       get_transport_type = (\<lambda>server_config. HTTP) \<rparr>"

definition raising_strategy :: strategy where
  "raising_strategy =
     \<lparr> discover_tools = (\<lambda>name server_config t. Inl (Exception ''boom'')),
       get_transport_type = (\<lambda>server_config. HTTP) \<rparr>"

definition sample_tool :: enumerated_tool where
  "sample_tool =
     \<lparr> tool_name = ''echo'', tool_description = Some ''Echo'', tool_server_name = ''b'',
       tool_transport_type = STDIO,
       input_schema = Some \<lparr> schema_type = ''object'', schema_properties = [],
                              schema_required = [], additionalProperties = False \<rparr>,
       metadata = [], discovery_method = STDIO_INTROSPECTION,
       discovery_timestamp = ''2025-09-14T12:00:00'' \<rparr>"

definition answering_strategy :: strategy where
  "answering_strategy =
     \<lparr> discover_tools = (\<lambda>name server_config t. Inr ([sample_tool], [], [])),
       get_transport_type = (\<lambda>server_config. STDIO) \<rparr>"

definition sample_world :: world where
  "sample_world =
     \<lparr> strategies =
         (\<lambda>key. case key of
            HTTP_DISCOVERY \<Rightarrow> Some hanging_strategy
          | STDIO_INTROSPECTION \<Rightarrow> Some answering_strategy
          | MCP_JSON_PARSING \<Rightarrow> Some (McpJsonParsingStrategy ''2025-09-14T12:00:00'')
          | COMBINED \<Rightarrow> None),
       utcnow_iso = ''2025-09-14T12:00:01'',
       elapsed_ms = (\<lambda>name. 7) \<rparr>"

definition faulty_world :: world where
  "faulty_world =
     \<lparr> strategies = (\<lambda>key. case key of HTTP_DISCOVERY \<Rightarrow> Some raising_strategy | _ \<Rightarrow> None),
       utcnow_iso = ''2025-09-14T12:00:01'',
       elapsed_ms = (\<lambda>name. 7) \<rparr>"

definition sample_request :: tool_enumeration_request where
  "sample_request =
     \<lparr> mcp_json =
         \<lparr> mcpServers = [(''a'', url_config), (''b'', command_config), (''c'', bare_config)] \<rparr>,
       timeout_seconds = 30, include_schemas = True, parallel_discovery = True \<rparr>"

definition bare_request :: tool_enumeration_request where
  "bare_request =
     \<lparr> mcp_json = \<lparr> mcpServers = [(''c'', bare_config)] \<rparr>,
       timeout_seconds = 30, include_schemas = True, parallel_discovery = False \<rparr>"

text \<open>A probe of \<^verbatim>\<open>http://x/\<close>; a server that lists a different tool at its root and at
  \<^verbatim>\<open>/info\<close>; and a server that only answers at \<^verbatim>\<open>/api/info\<close>.\<close>

definition sample_probe :: probe where
  "sample_probe =
     \<lparr> build_schema = (\<lambda>d. None), probe_now = ''2025-09-14T12:00:00'',
       probe_url = ''http://x/'', probe_headers = [(''Content-Type'', ''application/json'')],
       probe_server = ''s1'' \<rparr>"

definition tools_body :: "string \<Rightarrow> http_response" where
  "tools_body name =
     \<lparr> status_code = 200,
       json_body = Some (JObj [(''tools'', JArr [JObj [(''name'', JStr name)]])]) \<rparr>"

definition not_found :: http_response where
  "not_found = \<lparr> status_code = 404, json_body = None \<rparr>"

definition two_path_server :: http_server where
  "two_path_server u hs =
     (if u = ''http://x/info'' then Inr (tools_body ''from_info'')
      else if u = ''http://x/'' then Inr (tools_body ''from_root'')
      else Inr not_found)"

definition api_info_server :: http_server where
  "api_info_server u hs =
     (if u = ''http://x/api/info'' then Inr (tools_body ''t1'') else Inr not_found)"



text \<open>
  Four children of \<^verbatim>\<open>server-bin\<close>: one that answers the handshake with one tool and
  exits on \<^verbatim>\<open>SIGTERM\<close>; one that never answers \<^verbatim>\<open>tools/list\<close> and ignores \<^verbatim>\<open>SIGTERM\<close>;
  one whose answer to \<^verbatim>\<open>tools/list\<close> is not JSON; and one that is still waited for when
  the orchestrator's deadline cancels the call.
\<close>

definition answering_child :: stdio_world where
  "answering_child =
     \<lparr> which = (\<lambda>cmd. True),
       popen = (\<lambda>cmd. None),
       settle_sleep = None,
       exited_early = False,
       init_write = None,
       init_read = (\<lambda>t. Line (Decoded (JObj [(''jsonrpc'', JStr ''2.0''), (''id'', JNum 1),
                                              (''result'', JObj [])]))),
       notify_write = None,
       protocol_sleep = None,
       tools_write = None,
       tools_read =
         (\<lambda>t. Line (Decoded (JObj [(''jsonrpc'', JStr ''2.0''), (''id'', JNum 2),
            (''result'', JObj [(''tools'', JArr [JObj [(''name'', JStr ''echo'')]])])]))),
       terminate_raises = False,
       wait_returns = True,
       py_str = (\<lambda>v. ''?''),
       validation_text = ''1 validation error for EnumeratedTool'',
       stdio_build_schema = (\<lambda>d. None),
       stdio_now = ''2025-09-14T12:00:00'' \<rparr>"

definition silent_child :: stdio_world where
  "silent_child = answering_child\<lparr>tools_read := (\<lambda>t. ReadTimeout), wait_returns := False\<rparr>"

definition garbled_child :: stdio_world where
  "garbled_child =
     answering_child\<lparr>tools_read := (\<lambda>t. Line (Undecodable ''Expecting value''))\<rparr>"

definition cancelled_child :: stdio_world where
  "cancelled_child =
     answering_child\<lparr>init_read := (\<lambda>t. ReadRaises CancelledError), wait_returns := False\<rparr>"

text \<open>And two more: one that answers \<^verbatim>\<open>initialize\<close> with an error, and one whose pipe
  breaks under the notification.\<close>

definition refusing_child :: stdio_world where
  "refusing_child =
     answering_child\<lparr>init_read :=
       (\<lambda>t. Line (Decoded (JObj [(''error'', JObj [(''code'', JNum (- 32600))])])))\<rparr>"

definition broken_child :: stdio_world where
  "broken_child =
     answering_child\<lparr>notify_write := Some (BrokenPipeError ''[Errno 32] Broken pipe'')\<rparr>"

section \<open>Properties of the orchestrator\<close>

lemmas sample_defs =
  url_config_def command_config_def bare_config_def hanging_strategy_def raising_strategy_def
  answering_strategy_def sample_world_def faulty_world_def sample_request_def

lemmas service_defs =
  enumerate_server_tools_def try_enumerate_server_tools_def auto_select_strategy_def
  strategies_getitem_def extract_server_url_def

subsection \<open>The per-server boundary\<close>

lemma enumerate_server_tools_returns:
  "\<exists>r. enumerate_server_tools w name cfg t inc = Inr r"
  by (simp add: enumerate_server_tools_def split: sum.split py_exception.split)


text \<open>
  \<^bold>\<open>C2.\<close> When the deadline of \<^verbatim>\<open>asyncio.wait_for\<close> expires for a server, the
  per-server function returns a result with no tool and exactly one error, the timeout
  message; when the strategy raises any other exception, or the strategy dictionary has
  no entry for the selected method, it returns a result with no tool and exactly one
  error, the message \<^verbatim>\<open>Discovery failed: ...\<close>. In every case it returns a result: no
  exception leaves the per-server function.
\<close>

theorem server_failure_is_captured:
  "(\<forall>s. auto_select_strategy (strategies w) cfg = Inr s \<and>
          discover_tools s name cfg t = Inl TimeoutError \<longrightarrow>
        (\<exists>r. enumerate_server_tools w name cfg t inc = Inr r \<and> tools r = [] \<and>
           errors r = [''Discovery timeout after '' @ str_int t @ '' seconds'']))
   \<and> (\<forall>s m. auto_select_strategy (strategies w) cfg = Inr s \<and>
          discover_tools s name cfg t = Inl (Exception m) \<longrightarrow>
        (\<exists>r. enumerate_server_tools w name cfg t inc = Inr r \<and> tools r = [] \<and>
           errors r = [''Discovery failed: '' @ m]))
   \<and> (\<forall>m. auto_select_strategy (strategies w) cfg = Inl (Exception m) \<longrightarrow>
        (\<exists>r. enumerate_server_tools w name cfg t inc = Inr r \<and> tools r = [] \<and>
           errors r = [''Discovery failed: '' @ m]))
   \<and> (\<exists>r. enumerate_server_tools w name cfg t inc = Inr r)"
  by (auto simp: enumerate_server_tools_def try_enumerate_server_tools_def
      split: sum.split py_exception.split)

theorem server_failure_is_captured_witness:
  "(\<exists>r. enumerate_server_tools sample_world ''a'' url_config 30 True = Inr r \<and> tools r = [] \<and>
        errors r = [''Discovery timeout after 30 seconds'']) \<and>
   (\<exists>r. enumerate_server_tools faulty_world ''a'' url_config 30 True = Inr r \<and> tools r = [] \<and>
        errors r = [''Discovery failed: boom'']) \<and>
   (\<exists>r. enumerate_server_tools faulty_world ''c'' bare_config 30 True = Inr r \<and> tools r = [] \<and>
        errors r = [''Discovery failed: <ToolDiscoveryMethod.MCP_JSON_PARSING: 'mcp_json_parsing'>''])"
proof -
  have sel: "auto_select_strategy (strategies sample_world) url_config = Inr hanging_strategy"
    "auto_select_strategy (strategies faulty_world) url_config = Inr raising_strategy"
    "auto_select_strategy (strategies faulty_world) bare_config
       = Inl (Exception ''<ToolDiscoveryMethod.MCP_JSON_PARSING: 'mcp_json_parsing'>'')"
    by (simp_all add: auto_select_strategy_def strategies_getitem_def sample_defs)
  have out: "discover_tools hanging_strategy ''a'' url_config 30 = Inl TimeoutError"
    "discover_tools raising_strategy ''a'' url_config 30 = Inl (Exception ''boom'')"
    by (simp_all add: sample_defs)
  have n: "str_int 30 = ''30''"
    by (simp add: str_int_def)
  show ?thesis
    using
      server_failure_is_captured
        [where w = sample_world and name = "''a''" and cfg = url_config and t = 30 and inc = True]
      server_failure_is_captured
        [where w = faulty_world and name = "''a''" and cfg = url_config and t = 30 and inc = True]
      server_failure_is_captured
        [where w = faulty_world and name = "''c''" and cfg = bare_config and t = 30 and inc = True]
      sel out n
    by simp
qed

subsection \<open>The strategy selector\<close>

text \<open>
  \<^bold>\<open>C9.\<close> With the three strategies registered as the container registers them, the
  selector is a function of the configuration alone and never raises: it returns the
  networked strategy when \<^verbatim>\<open>url\<close> is present, otherwise the process strategy when
  \<^verbatim>\<open>command\<close> is present, otherwise the fallback strategy. Presence is the test the code
  makes, \<^verbatim>\<open>if server_config.url:\<close>, under which a field that is \<^verbatim>\<open>None\<close> or the empty
  string is absent.
\<close>

theorem auto_select_strategy_dispatch:
  assumes "table HTTP_DISCOVERY = Some http_strategy"
    and "table STDIO_INTROSPECTION = Some stdio_strategy"
    and "table MCP_JSON_PARSING = Some fallback_strategy"
  shows "auto_select_strategy table server_config =
           Inr (if truthy_opt (url server_config) then http_strategy
                else if truthy_opt (command server_config) then stdio_strategy
                else fallback_strategy)"
  using assms by (simp add: auto_select_strategy_def strategies_getitem_def)

theorem auto_select_strategy_dispatch_witness:
  "auto_select_strategy (strategies sample_world) url_config = Inr hanging_strategy \<and>
   auto_select_strategy (strategies sample_world) command_config = Inr answering_strategy \<and>
   auto_select_strategy (strategies sample_world) bare_config
     = Inr (McpJsonParsingStrategy ''2025-09-14T12:00:00'')"
proof -
  have h: "strategies sample_world HTTP_DISCOVERY = Some hanging_strategy"
    and s: "strategies sample_world STDIO_INTROSPECTION = Some answering_strategy"
    and f: "strategies sample_world MCP_JSON_PARSING
              = Some (McpJsonParsingStrategy ''2025-09-14T12:00:00'')"
    by (simp_all add: sample_world_def)
  show ?thesis
    using auto_select_strategy_dispatch [OF h s f, of url_config]
      auto_select_strategy_dispatch [OF h s f, of command_config]
      auto_select_strategy_dispatch [OF h s f, of bare_config]
    by (simp add: url_config_def command_config_def bare_config_def)
qed

subsection \<open>The two loops and the aggregation\<close>

lemma parallel_loop_sequential:
  "parallel_loop (pre @ map fst items) (length pre)
     (map (\<lambda>(name, server_config). f name server_config) items) acc
   = Inr (sequential_loop f items acc)"
proof (induction items arbitrary: pre acc)
  case Nil
  then show ?case by simp
next
  case (Cons item items)
  obtain name cfg where item: "item = (name, cfg)" by (cases item)
  obtain srvs ts ge where acc: "acc = (srvs, ts, ge)" by (cases acc)
  have step: "\<And>a. parallel_loop (pre @ name # map fst items) (Suc (length pre))
       (map (\<lambda>(name, server_config). f name server_config) items) a
     = Inr (sequential_loop f items a)"
    using Cons.IH [of "pre @ [name]"] by simp
  show ?case
    by (cases "f name cfg") (simp_all add: item acc step)
qed

lemma collect_parallel: "collect f True items = collect f False items"
  using parallel_loop_sequential [of "[]" items f "([], [], [])"]
  by (simp add: collect_def)

lemma sequential_loop_total:
  assumes "\<And>name cfg. f name cfg = Inr (g name cfg)"
  shows "sequential_loop f items (srvs, ts, ge) =
     (srvs @ map (\<lambda>(name, cfg). g name cfg) items,
      ts @ concat (map (\<lambda>(name, cfg). tools (g name cfg)) items), ge)"
proof (induction items arbitrary: srvs ts)
  case Nil
  then show ?case by simp
next
  case (Cons item items)
  obtain name cfg where item: "item = (name, cfg)" by (cases item)
  have "f name cfg = Inr (g name cfg)" by (rule assms)
  then show ?case by (simp add: item Cons.IH)
qed

lemma server_results_eq:
  "server_results w request =
     Inr (map (\<lambda>(name, cfg). projr (enumerate_server_tools w name cfg
                 (timeout_seconds request) (include_schemas request)))
            (mcpServers (mcp_json request)),
          concat (map (\<lambda>(name, cfg). tools (projr (enumerate_server_tools w name cfg
                 (timeout_seconds request) (include_schemas request))))
            (mcpServers (mcp_json request))), [])"
proof -
  let ?f = "\<lambda>name cfg. enumerate_server_tools w name cfg (timeout_seconds request)
              (include_schemas request)"
  have f: "\<And>name cfg. ?f name cfg = Inr (projr (?f name cfg))"
    using enumerate_server_tools_returns by (metis sum.sel(2))
  have "server_results w request = collect ?f False (mcpServers (mcp_json request))"
    unfolding server_results_def
    by (cases "parallel_discovery request") (simp_all add: collect_parallel)
  also have "\<dots> = Inr (sequential_loop ?f (mcpServers (mcp_json request)) ([], [], []))"
    by (simp add: collect_def)
  finally show ?thesis
    using sequential_loop_total [of ?f "\<lambda>name cfg. projr (?f name cfg)", OF f] by simp
qed

lemma simplify_loop_eq:
  "simplify_loop srvs (ss, ts, cnt) =
     (ss @ map simplified_server srvs,
      ts @ concat (map (\<lambda>r. map (simplify_tool (server_name r)) (tools r)) srvs),
      cnt + int (length (filter (\<lambda>r. errors r = []) srvs)))"
  by (induction srvs arbitrary: ss ts cnt) (simp_all add: server_status_def)

lemma build_response_eq:
  "build_response now n srvs =
     \<lparr> status = (if (\<exists>r \<in> set srvs. errors r = []) then ''success'' else ''error''),
       message =
         (if int (length (filter (\<lambda>r. errors r = []) srvs)) = int n then
            ''Successfully connected to all ''
              @ str_int (int (length (filter (\<lambda>r. errors r = []) srvs))) @ '' servers''
          else ''Connected to '' @ str_int (int (length (filter (\<lambda>r. errors r = []) srvs)))
                 @ '' of '' @ str_int (int n) @ '' servers''),
       timestamp = now,
       servers = map simplified_server srvs,
       resp_tools = concat (map (\<lambda>r. map (simplify_tool (server_name r)) (tools r)) srvs),
       total_servers = int n,
       connected_servers = int (length (filter (\<lambda>r. errors r = []) srvs)) \<rparr>"
proof -
  have "(0 < length (filter (\<lambda>r. errors r = []) srvs)) = (\<exists>r \<in> set srvs. errors r = [])"
    by (simp add: filter_empty_conv)
  then show ?thesis
    by (simp add: build_response_def simplify_loop_eq)
qed

lemma sr_status_connected:
  "(sr_status (simplified_server r) = ''connected'') = (errors r = [])"
  by (simp add: simplified_server_def server_status_def)

lemma filter_connected:
  "filter (\<lambda>s. sr_status s = ''connected'') (map simplified_server srvs)
     = map simplified_server (filter (\<lambda>r. errors r = []) srvs)"
  by (induction srvs) (simp_all add: sr_status_connected)

lemma sample_errors:
  "errors (projr (enumerate_server_tools sample_world ''a'' url_config 30 True))
     = [''Discovery timeout after 30 seconds'']"
  "errors (projr (enumerate_server_tools sample_world ''b'' command_config 30 True)) = []"
  "errors (projr (enumerate_server_tools sample_world ''c'' bare_config 30 True)) = []"
  by (simp_all add: service_defs sample_defs McpJsonParsingStrategy_def
      mcp_json_discover_tools_def str_int_def)

lemma sample_results:
  "server_results sample_world sample_request =
     Inr ([projr (enumerate_server_tools sample_world ''a'' url_config 30 True),
           projr (enumerate_server_tools sample_world ''b'' command_config 30 True),
           projr (enumerate_server_tools sample_world ''c'' bare_config 30 True)],
          tools (projr (enumerate_server_tools sample_world ''a'' url_config 30 True)) @
          tools (projr (enumerate_server_tools sample_world ''b'' command_config 30 True)) @
          tools (projr (enumerate_server_tools sample_world ''c'' bare_config 30 True)), [])"
  using server_results_eq [of sample_world sample_request]
  by (simp add: sample_request_def)

text \<open>
  \<^bold>\<open>C1.\<close> For every request the report is returned, with one summary per server result,
  in order. A summary has status \<^verbatim>\<open>connected\<close> if and only if the error list of its server
  is empty, whatever the number of tools, and status \<^verbatim>\<open>error\<close> otherwise;
  \<^verbatim>\<open>connected_servers\<close> is the number of servers with an empty error list, which is the
  number of summaries with status \<^verbatim>\<open>connected\<close>; and the overall status is \<^verbatim>\<open>success\<close> if
  and only if at least one server is connected, and \<^verbatim>\<open>error\<close> otherwise.
\<close>

theorem report_status_connected:
  "\<exists>srvs all_tools global_errors resp.
     server_results w request = Inr (srvs, all_tools, global_errors) \<and>
     enumerate_tools w request = Inr resp \<and>
     length (servers resp) = length srvs \<and>
     (\<forall>i < length srvs.
        sr_name (servers resp ! i) = server_name (srvs ! i) \<and>
        (sr_status (servers resp ! i) = ''connected'') = (errors (srvs ! i) = []) \<and>
        (sr_status (servers resp ! i) = ''connected'' \<or> sr_status (servers resp ! i) = ''error'')) \<and>
     connected_servers resp = int (length (filter (\<lambda>r. errors r = []) srvs)) \<and>
     connected_servers resp =
       int (length (filter (\<lambda>s. sr_status s = ''connected'') (servers resp))) \<and>
     (status resp = ''success'') = (\<exists>s \<in> set (servers resp). sr_status s = ''connected'') \<and>
     (status resp = ''success'') = (0 < connected_servers resp) \<and>
     (status resp = ''success'' \<or> status resp = ''error'')"
proof -
  obtain srvs all_tools where res: "server_results w request = Inr (srvs, all_tools, [])"
    using server_results_eq by blast
  let ?resp = "build_response (utcnow_iso w) (length (mcpServers (mcp_json request))) srvs"
  have run: "enumerate_tools w request = Inr ?resp"
    by (simp add: enumerate_tools_def res)
  have per: "\<forall>i < length srvs.
        sr_name (servers ?resp ! i) = server_name (srvs ! i) \<and>
        (sr_status (servers ?resp ! i) = ''connected'') = (errors (srvs ! i) = []) \<and>
        (sr_status (servers ?resp ! i) = ''connected'' \<or> sr_status (servers ?resp ! i) = ''error'')"
    by (simp add: build_response_eq simplified_server_def server_status_def)
  have cnt: "connected_servers ?resp =
       int (length (filter (\<lambda>s. sr_status s = ''connected'') (servers ?resp)))"
    by (simp add: build_response_eq filter_connected)
  have st: "(status ?resp = ''success'')
      = (\<exists>s \<in> set (servers ?resp). sr_status s = ''connected'')"
    by (simp add: build_response_eq sr_status_connected)
  have st2: "(status ?resp = ''success'') = (0 < connected_servers ?resp)"
    by (simp add: build_response_eq filter_empty_conv)
  have st3: "status ?resp = ''success'' \<or> status ?resp = ''error''"
    by (simp add: build_response_eq)
  have len: "length (servers ?resp) = length srvs"
    and cnt0: "connected_servers ?resp = int (length (filter (\<lambda>r. errors r = []) srvs))"
    by (simp_all add: build_response_eq)
  show ?thesis
    using res run len per cnt0 cnt st st2 st3 by blast
qed

theorem report_status_connected_witness:
  "\<exists>resp. enumerate_tools sample_world sample_request = Inr resp \<and>
     length (servers resp) = 3 \<and>
     sr_status (servers resp ! 0) = ''error'' \<and>
     sr_status (servers resp ! 1) = ''connected'' \<and>
     sr_status (servers resp ! 2) = ''connected'' \<and>
     connected_servers resp = 2 \<and> status resp = ''success''"
proof -
  obtain srvs all_tools global_errors resp where
    res: "server_results sample_world sample_request = Inr (srvs, all_tools, global_errors)"
    and run: "enumerate_tools sample_world sample_request = Inr resp"
    and len: "length (servers resp) = length srvs"
    and per: "\<forall>i < length srvs.
        sr_name (servers resp ! i) = server_name (srvs ! i) \<and>
        (sr_status (servers resp ! i) = ''connected'') = (errors (srvs ! i) = []) \<and>
        (sr_status (servers resp ! i) = ''connected'' \<or> sr_status (servers resp ! i) = ''error'')"
    and cnt: "connected_servers resp = int (length (filter (\<lambda>r. errors r = []) srvs))"
    and st: "(status resp = ''success'') = (0 < connected_servers resp)"
    using report_status_connected [of sample_world sample_request] by blast
  from res have srvs: "srvs =
      [projr (enumerate_server_tools sample_world ''a'' url_config 30 True),
       projr (enumerate_server_tools sample_world ''b'' command_config 30 True),
       projr (enumerate_server_tools sample_world ''c'' bare_config 30 True)]"
    by (simp add: sample_results)
  have "sr_status (servers resp ! 0) = ''error''"
    using per [rule_format, of 0] by (auto simp: srvs sample_errors)
  moreover have "sr_status (servers resp ! 1) = ''connected''"
    using per [rule_format, of 1] by (auto simp: srvs sample_errors)
  moreover have "sr_status (servers resp ! 2) = ''connected''"
    using per [rule_format, of 2] by (auto simp: srvs sample_errors)
  moreover have "connected_servers resp = 2"
    using cnt by (simp add: srvs sample_errors)
  moreover from this st have "status resp = ''success''"
    by simp
  moreover have "length (servers resp) = 3"
    using len by (simp add: srvs)
  ultimately show ?thesis
    using run by blast
qed






subsection \<open>Schema inclusion\<close>

lemma enumerate_server_tools_strip:
  "projr (enumerate_server_tools w name cfg t False)
     = (projr (enumerate_server_tools w name cfg t True))
         \<lparr>tools := map strip_schema (tools (projr (enumerate_server_tools w name cfg t True)))\<rparr>"
  by (simp add: enumerate_server_tools_def try_enumerate_server_tools_def
      split: sum.split py_exception.split prod.split)

lemma simplified_server_strip:
  "simplified_server (r\<lparr>tools := map strip_schema (tools r)\<rparr>) = simplified_server r"
  by (simp add: simplified_server_def server_status_def)

lemma simplify_tool_strip:
  "simplify_tool name (strip_schema tool) = (simplify_tool name tool)\<lparr>inputSchema := None\<rparr>"
  by (simp add: simplify_tool_def strip_schema_def)

lemma build_response_strip:
  "build_response now n (map (\<lambda>r. r\<lparr>tools := map strip_schema (tools r)\<rparr>) srvs)
     = (build_response now n srvs)
         \<lparr>resp_tools :=
            map (\<lambda>t. t\<lparr>inputSchema := None\<rparr>) (resp_tools (build_response now n srvs))\<rparr>"
  by (simp add: build_response_eq simplified_server_strip simplify_tool_strip comp_def
      filter_map map_concat)

text \<open>
  \<^bold>\<open>C8.\<close> Run any request with schema inclusion enabled and with it disabled, in the
  same world. With inclusion disabled, each per-server result is the result of the
  enabled run with the schema of each of its tools set to \<^verbatim>\<open>None\<close> and nothing else
  changed: the strategy has been called in the same way, and the schemas are dropped from
  what it returned, before the aggregation. The report is the report of the enabled run
  with \<^verbatim>\<open>inputSchema\<close> of every tool set to \<^verbatim>\<open>None\<close> and nothing else changed, so the
  names and descriptions are those of the enabled run.
\<close>

theorem schemas_stripped_after_discovery:
  "\<exists>srvs all_tools resp.
     server_results w (request\<lparr>include_schemas := True\<rparr>) = Inr (srvs, all_tools, []) \<and>
     server_results w (request\<lparr>include_schemas := False\<rparr>)
       = Inr (map (\<lambda>r. r\<lparr>tools := map strip_schema (tools r)\<rparr>) srvs,
              map strip_schema all_tools, []) \<and>
     enumerate_tools w (request\<lparr>include_schemas := True\<rparr>) = Inr resp \<and>
     enumerate_tools w (request\<lparr>include_schemas := False\<rparr>)
       = Inr (resp\<lparr>resp_tools := map (\<lambda>t. t\<lparr>inputSchema := None\<rparr>) (resp_tools resp)\<rparr>) \<and>
     map st_name (resp_tools resp) = map tool_name all_tools \<and>
     map st_description (resp_tools resp) = map tool_description all_tools"
proof -
  define items where "items = mcpServers (mcp_json request)"
  define g where "g = (\<lambda>inc (name, cfg). projr (enumerate_server_tools w name cfg
               (timeout_seconds request) inc))"
  define srvs where "srvs = map (g True) items"
  define upd :: "server_enumeration_result \<Rightarrow> server_enumeration_result"
    where "upd = (\<lambda>r. r\<lparr>tools := map strip_schema (tools r)\<rparr>)"
  have g: "g False = upd \<circ> g True"
    by (rule ext) (simp add: g_def upd_def case_prod_unfold enumerate_server_tools_strip)
  have on: "server_results w (request\<lparr>include_schemas := True\<rparr>)
      = Inr (srvs, concat (map tools srvs), [])"
    using server_results_eq [of w "request\<lparr>include_schemas := True\<rparr>"]
    by (simp add: srvs_def g_def items_def comp_def case_prod_unfold)
  have "server_results w (request\<lparr>include_schemas := False\<rparr>)
      = Inr (map (g False) items, concat (map tools (map (g False) items)), [])"
    using server_results_eq [of w "request\<lparr>include_schemas := False\<rparr>"]
    by (simp add: g_def items_def comp_def case_prod_unfold)
  moreover have "map (g False) items = map upd srvs"
    by (simp add: g srvs_def)
  moreover have "concat (map tools (map upd srvs)) = map strip_schema (concat (map tools srvs))"
    by (simp add: upd_def comp_def map_concat)
  ultimately have off: "server_results w (request\<lparr>include_schemas := False\<rparr>)
      = Inr (map upd srvs, map strip_schema (concat (map tools srvs)), [])"
    by simp
  define resp where "resp = build_response (utcnow_iso w) (length items) srvs"
  have r1: "enumerate_tools w (request\<lparr>include_schemas := True\<rparr>) = Inr resp"
    by (simp add: enumerate_tools_def on resp_def items_def)
  have r2: "enumerate_tools w (request\<lparr>include_schemas := False\<rparr>)
       = Inr (resp\<lparr>resp_tools := map (\<lambda>t. t\<lparr>inputSchema := None\<rparr>) (resp_tools resp)\<rparr>)"
    using build_response_strip [of "utcnow_iso w" "length items" srvs]
    by (simp add: enumerate_tools_def off resp_def items_def upd_def)
  have n1: "map st_name (resp_tools resp) = map tool_name (concat (map tools srvs))"
    by (simp add: resp_def build_response_eq map_concat comp_def simplify_tool_def)
  have n2: "map st_description (resp_tools resp)
      = map tool_description (concat (map tools srvs))"
    by (simp add: resp_def build_response_eq map_concat comp_def simplify_tool_def)
  show ?thesis
    using on off r1 r2 n1 n2 unfolding upd_def by blast
qed

subsection \<open>The fallback strategy\<close>

lemma fallback_server_result:
  assumes "strategies w MCP_JSON_PARSING = Some (McpJsonParsingStrategy now)"
    and "0 < t" and "\<not> truthy_opt (url cfg)" and "\<not> truthy_opt (command cfg)"
  shows "\<exists>r. enumerate_server_tools w name cfg t inc = Inr r \<and> errors r = [] \<and>
           length (tools r) = 1 \<and> server_name r = name"
  using assms
  by (simp add: enumerate_server_tools_def try_enumerate_server_tools_def
      auto_select_strategy_def strategies_getitem_def McpJsonParsingStrategy_def
      mcp_json_discover_tools_def)

lemma length_filter_mono:
  "(\<And>x. x \<in> set xs \<Longrightarrow> Q x \<Longrightarrow> P x) \<Longrightarrow> length (filter Q xs) \<le> length (filter P xs)"
  by (induction xs) auto

text \<open>
  \<^bold>\<open>C10.\<close> Let the fallback strategy be registered and the request be one the request
  model admits. Then every server configured with neither \<^verbatim>\<open>url\<close> nor \<^verbatim>\<open>command\<close> is
  reported with status \<^verbatim>\<open>connected\<close>, one tool and no error, and counts toward
  \<^verbatim>\<open>connected_servers\<close>; and a configuration of one or more servers, all of this kind,
  yields the overall status \<^verbatim>\<open>success\<close> with every server connected, although nothing
  was discovered live.
\<close>

theorem fallback_server_reported_connected:
  assumes table: "strategies w MCP_JSON_PARSING = Some (McpJsonParsingStrategy now)"
    and valid: "valid_request request"
  shows "\<exists>resp. enumerate_tools w request = Inr resp \<and>
      length (servers resp) = length (mcpServers (mcp_json request)) \<and>
      (\<forall>i < length (mcpServers (mcp_json request)).
         no_transport (snd (mcpServers (mcp_json request) ! i)) \<longrightarrow>
           servers resp ! i =
             \<lparr> sr_name = fst (mcpServers (mcp_json request) ! i), sr_status = ''connected'',
               tool_count = 1, sr_error = None \<rparr>) \<and>
      int (length (filter (\<lambda>(name, cfg). no_transport cfg) (mcpServers (mcp_json request))))
        \<le> connected_servers resp \<and>
      (mcpServers (mcp_json request) \<noteq> [] \<and>
       (\<forall>(name, cfg) \<in> set (mcpServers (mcp_json request)). no_transport cfg) \<longrightarrow>
         status resp = ''success'' \<and> connected_servers resp = total_servers resp)"
proof -
  define items where "items = mcpServers (mcp_json request)"
  define g where "g = (\<lambda>(name, cfg). projr (enumerate_server_tools w name cfg
               (timeout_seconds request) (include_schemas request)))"
  define srvs where "srvs = map g items"
  define resp where "resp = build_response (utcnow_iso w) (length items) srvs"
  have t: "0 < timeout_seconds request"
    using valid by (simp add: valid_request_def)
  have fb: "errors (g item) = [] \<and> length (tools (g item)) = 1 \<and> server_name (g item) = fst item"
    if "no_transport (snd item)" for item
  proof -
    obtain name cfg where item: "item = (name, cfg)" by (cases item)
    from that have "\<not> truthy_opt (url cfg)" "\<not> truthy_opt (command cfg)"
      by (simp_all add: item no_transport_def)
    from fallback_server_result [OF table t this, of name "include_schemas request"]
    obtain r where "enumerate_server_tools w name cfg (timeout_seconds request)
        (include_schemas request) = Inr r"
      and "errors r = []" and "length (tools r) = 1" and "server_name r = name"
      by blast
    then show ?thesis by (simp add: g_def item)
  qed
  have res: "server_results w request = Inr (srvs, concat (map tools srvs), [])"
    using server_results_eq [of w request]
    by (simp add: srvs_def g_def items_def comp_def case_prod_unfold)
  have run: "enumerate_tools w request = Inr resp"
    by (simp add: enumerate_tools_def res resp_def items_def)
  have len: "length (servers resp) = length items"
    by (simp add: resp_def build_response_eq srvs_def)
  have per: "servers resp ! i =
      \<lparr> sr_name = fst (items ! i), sr_status = ''connected'', tool_count = 1, sr_error = None \<rparr>"
    if "i < length items" "no_transport (snd (items ! i))" for i
    using that fb [of "items ! i"]
    by (simp add: resp_def build_response_eq srvs_def simplified_server_def server_status_def)
  have "length (filter (\<lambda>(name, cfg). no_transport cfg) items)
      \<le> length (filter (\<lambda>item. errors (g item) = []) items)"
    by (rule length_filter_mono) (use fb in auto)
  then have cnt: "int (length (filter (\<lambda>(name, cfg). no_transport cfg) items))
      \<le> connected_servers resp"
    by (simp add: resp_def build_response_eq srvs_def filter_map comp_def)
  have all: "status resp = ''success'' \<and> connected_servers resp = total_servers resp"
    if "items \<noteq> []" "\<forall>(name, cfg) \<in> set items. no_transport cfg"
  proof -
    from that(2) have e: "\<forall>item \<in> set items. errors (g item) = []"
      using fb by auto
    then have "filter (\<lambda>item. errors (g item) = []) items = items"
      by (simp add: filter_id_conv)
    moreover from that(1) e have "\<exists>r \<in> set srvs. errors r = []"
      by (cases items) (auto simp: srvs_def)
    ultimately show ?thesis
      by (simp add: resp_def build_response_eq srvs_def filter_map comp_def)
  qed
  show ?thesis
    using run len per cnt all unfolding items_def by blast
qed

theorem fallback_server_reported_connected_witness:
  "valid_request bare_request \<and>
   (\<exists>resp. enumerate_tools sample_world bare_request = Inr resp \<and>
      servers resp
        = [\<lparr> sr_name = ''c'', sr_status = ''connected'', tool_count = 1, sr_error = None \<rparr>] \<and>
      status resp = ''success'' \<and> connected_servers resp = 1 \<and> total_servers resp = 1)"
proof -
  have table: "strategies sample_world MCP_JSON_PARSING
      = Some (McpJsonParsingStrategy ''2025-09-14T12:00:00'')"
    by (simp add: sample_world_def)
  have valid: "valid_request bare_request"
    by (simp add: valid_request_def bare_request_def)
  have items: "mcpServers (mcp_json bare_request) = [(''c'', bare_config)]"
    by (simp add: bare_request_def)
  have bare: "no_transport bare_config"
    by (simp add: no_transport_def bare_config_def)
  obtain resp where run: "enumerate_tools sample_world bare_request = Inr resp"
    and len: "length (servers resp) = length (mcpServers (mcp_json bare_request))"
    and per: "\<forall>i < length (mcpServers (mcp_json bare_request)).
         no_transport (snd (mcpServers (mcp_json bare_request) ! i)) \<longrightarrow>
           servers resp ! i =
             \<lparr> sr_name = fst (mcpServers (mcp_json bare_request) ! i), sr_status = ''connected'',
               tool_count = 1, sr_error = None \<rparr>"
    and all: "mcpServers (mcp_json bare_request) \<noteq> [] \<and>
       (\<forall>(name, cfg) \<in> set (mcpServers (mcp_json bare_request)). no_transport cfg) \<longrightarrow>
         status resp = ''success'' \<and> connected_servers resp = total_servers resp"
    using fallback_server_reported_connected [OF table valid] by blast
  have "servers resp ! 0
      = \<lparr> sr_name = ''c'', sr_status = ''connected'', tool_count = 1, sr_error = None \<rparr>"
    using per [rule_format, of 0] by (simp add: items bare)
  with len have s: "servers resp
      = [\<lparr> sr_name = ''c'', sr_status = ''connected'', tool_count = 1, sr_error = None \<rparr>]"
    by (cases "servers resp") (simp_all add: items)
  from all have ok: "status resp = ''success''" "connected_servers resp = total_servers resp"
    by (simp_all add: items bare)
  have "total_servers resp = 1"
    using run by (auto simp: enumerate_tools_def build_response_eq items split: sum.splits)
  with s ok run valid show ?thesis by simp
qed

text \<open>
  \<^bold>\<open>C5.\<close> The fallback strategy at a configuration whose environment holds a secret.
  It returns no error, one placeholder tool without a schema, tagged
  \<^verbatim>\<open>MCP_JSON_PARSING\<close>, and one warning; but the \<^verbatim>\<open>env\<close> entry of the placeholder's
  metadata is the configured dictionary itself, the value \<^verbatim>\<open>s3cret\<close> included, where the
  process strategy records the key names only.
\<close>

theorem fallback_metadata_holds_env_values:
  "mcp_json_discover_tools ''2025-09-14T00:00:00'' ''srv'' secret_config =
     ([\<lparr> tool_name = ''srv_config'',
         tool_description = Some ''Configuration-based tool for srv'',
         tool_server_name = ''srv'',
         tool_transport_type = UNKNOWN,
         input_schema = None,
         metadata =
           [(''source'', JStr ''mcp_json_config''),
            (''command'', JNull),
            (''url'', JNull),
            (''args'', JNull),
            (''env'', JObj [(''API_TOKEN'', JStr ''s3cret'')]),
            (''note'', JStr ''Fallback tool created from MCP JSON configuration'')],
         discovery_method = MCP_JSON_PARSING,
         discovery_timestamp = ''2025-09-14T00:00:00'' \<rparr>],
      [],
      [''Created fallback tool from MCP JSON config for srv''])
   \<and> stdio_env_vars secret_config = JArr [JStr ''API_TOKEN'']"
  by (simp add: mcp_json_discover_tools_def mcp_json_metadata_def secret_config_def
      mcp_json_get_transport_type_def extract_server_url_def json_opt_str_def stdio_env_vars_def)

section \<open>Properties of the networked strategy\<close>

lemmas probe_defs =
  probe_endpoint_def tools_data_of_def dict_get_default_def dict_get_def public_info_tool_def
  normalize_tool_entry_def is_nested_def direct_fields_def dict_has_def
  convert_tool_schema_def rstrip_slash_def

lemmas http_sample_defs =
  sample_probe_def tools_body_def not_found_def two_path_server_def api_info_server_def

subsection \<open>The info-endpoint probe\<close>

lemma probe_endpoint_stop:
  "snd (probe_endpoint p server endpoint found) \<Longrightarrow>
     fst (probe_endpoint p server endpoint found) \<noteq> []"
  by (auto simp: probe_endpoint_def split: sum.splits if_splits option.splits prod.splits)

lemma public_info_loop_prefix:
  "\<exists>n. n \<le> length es \<and> (es \<noteq> [] \<longrightarrow> 0 < n) \<and>
     fst (public_info_loop p server es found log) = log @ map (endpoint_url p) (take n es)"
proof (induction es arbitrary: found log)
  case Nil
  then show ?case by simp
next
  case (Cons e es)
  obtain found' stop where pass: "probe_endpoint p server e found = (found', stop)"
    by (cases "probe_endpoint p server e found")
  show ?case
  proof (cases stop)
    case True
    with pass have "fst (public_info_loop p server (e # es) found log)
        = log @ map (endpoint_url p) (take 1 (e # es))"
      by (simp add: endpoint_url_def)
    then show ?thesis
      by (intro exI [of _ 1]) simp
  next
    case False
    from Cons.IH [of found' "log @ [endpoint_url p e]"]
    obtain n where n: "n \<le> length es"
      and eq: "fst (public_info_loop p server es found' (log @ [endpoint_url p e]))
          = (log @ [endpoint_url p e]) @ map (endpoint_url p) (take n es)"
      by blast
    from pass False eq have "fst (public_info_loop p server (e # es) found log)
        = log @ map (endpoint_url p) (take (Suc n) (e # es))"
      by (simp add: endpoint_url_def)
    with n show ?thesis
      by (intro exI [of _ "Suc n"]) simp
  qed
qed

lemma public_info_loop_first:
  "k < length es \<Longrightarrow> \<forall>j < k. body_tools p server (es ! j) = [] \<Longrightarrow>
   yields_tools p server (es ! k) \<Longrightarrow>
   public_info_loop p server es [] log
     = (log @ map (endpoint_url p) (take (Suc k) es), Inr (body_tools p server (es ! k)))"
proof (induction es arbitrary: k log)
  case Nil
  then show ?case by simp
next
  case (Cons e es)
  show ?case
  proof (cases k)
    case 0
    with Cons.prems(3) have "probe_endpoint p server e [] = (body_tools p server e, True)"
      by (simp add: yields_tools_def body_tools_def prod_eq_iff)
    with 0 show ?thesis
      by (simp add: endpoint_url_def)
  next
    case (Suc k')
    from Cons.prems(2) Suc have barren: "body_tools p server e = []"
      by auto
    then have "\<not> snd (probe_endpoint p server e [])"
      using probe_endpoint_stop [of p server e "[]"] by (auto simp: body_tools_def)
    with barren have pass: "probe_endpoint p server e [] = ([], False)"
      by (simp add: body_tools_def prod_eq_iff)
    from Cons.prems Suc have k': "k' < length es"
      and before: "\<forall>j < k'. body_tools p server (es ! j) = []"
      and at: "yields_tools p server (es ! k')"
      by auto
    from Cons.IH [OF k' before at, of "log @ [endpoint_url p e]"] pass Suc
    show ?thesis
      by (simp add: endpoint_url_def)
  qed
qed

lemma public_info_loop_none:
  "\<forall>j < length es. body_tools p server (es ! j) = [] \<Longrightarrow>
   public_info_loop p server es [] log
     = (log @ map (endpoint_url p) es,
        Inl (Exception ''No valid public info endpoints found''))"
proof (induction es arbitrary: log)
  case Nil
  then show ?case by simp
next
  case (Cons e es)
  from Cons.prems have barren: "body_tools p server e = []"
    by auto
  then have "\<not> snd (probe_endpoint p server e [])"
    using probe_endpoint_stop [of p server e "[]"] by (auto simp: body_tools_def)
  with barren have pass: "probe_endpoint p server e [] = ([], False)"
    by (simp add: body_tools_def prod_eq_iff)
  from Cons.prems have "\<forall>j < length es. body_tools p server (es ! j) = []"
    by auto
  from Cons.IH [OF this, of "log @ [endpoint_url p e]"] pass
  show ?case
    by (simp add: endpoint_url_def)
qed

lemma discover_public_info_eq:
  "discover_public_info p server = public_info_loop p server probe_order [] []"
  by (simp add: discover_public_info_def probe_order_def)

lemma api_info_passes:
  "body_tools sample_probe api_info_server ''/'' = []"
  "yields_tools sample_probe api_info_server ''/api/info''"
  by (simp_all add: body_tools_def yields_tools_def probe_defs http_sample_defs)

lemma yields_tools_iff:
  "yields_tools p server endpoint =
     (\<exists>response data entries found.
        server (endpoint_url p endpoint) (probe_headers p) = Inr response \<and>
        status_code response = 200 \<and> json_body response = Some data \<and>
        py_iter (tools_data_of data) = Inr entries \<and>
        entries_loop p endpoint 0 entries [] = (found, None) \<and> found \<noteq> [])"
  by (auto simp: yields_tools_def probe_endpoint_def endpoint_url_def
      split: sum.splits option.splits prod.splits)

text \<open>
  \<^bold>\<open>C6\<close>, as stated, fails. Against a server that lists one tool at its root and another
  at \<^verbatim>\<open>/info\<close>, the probe sends a single GET, to the root, and returns the root's tool; the
  informational path, which would come first in the declared order and whose 200 JSON
  body yields a tool, is never asked.
\<close>

theorem declared_order_counterexample:
  "discover_public_info sample_probe two_path_server =
     ([''http://x/''],
      Inr [\<lparr> tool_name = ''from_root'', tool_description = None, tool_server_name = ''s1'',
              tool_transport_type = HTTP, input_schema = None,
              metadata =
                [(''source_url'', JStr ''http://x/''),
                 (''endpoint'', JStr ''/''),
                 (''protocol'', JStr ''public-info''),
                 (''raw_tool_data'', JObj [(''name'', JStr ''from_root'')])],
              discovery_method = HTTP_DISCOVERY,
              discovery_timestamp = ''2025-09-14T12:00:00'' \<rparr>])
   \<and> two_path_server ''http://x/info'' (probe_headers sample_probe)
       = Inr (tools_body ''from_info'')"
  by (simp add: discover_public_info_def probe_defs http_sample_defs)

text \<open>
  \<^bold>\<open>C6\<close>, amended. The probe sends its GETs along the reverse of the list it declares:
  the root path first, then \<^verbatim>\<open>/api/info\<close>, \<^verbatim>\<open>/.well-known/mcp\<close> and the informational
  path \<^verbatim>\<open>/info\<close> last, each at most once and at least the first. It stops at the first
  path whose 200 JSON body yields at least one tool, when the paths before it left no tool
  in the list, and returns that path's tools; when no path leaves a tool it has asked all
  four and raises.
\<close>

theorem public_info_probe_order:
  "(\<exists>n. 1 \<le> n \<and> n \<le> 4 \<and>
      fst (discover_public_info p server) = map (endpoint_url p) (take n probe_order)) \<and>
   (\<forall>k < 4. (\<forall>j < k. body_tools p server (probe_order ! j) = []) \<and>
        yields_tools p server (probe_order ! k) \<longrightarrow>
      discover_public_info p server
        = (map (endpoint_url p) (take (Suc k) probe_order),
           Inr (body_tools p server (probe_order ! k)))) \<and>
   ((\<forall>j < 4. body_tools p server (probe_order ! j) = []) \<longrightarrow>
      discover_public_info p server
        = (map (endpoint_url p) probe_order,
           Inl (Exception ''No valid public info endpoints found'')))"
proof (intro conjI allI impI)
  have len: "length probe_order = 4" and ne: "probe_order \<noteq> []"
    by (simp_all add: probe_order_def)
  from public_info_loop_prefix [of probe_order p server "[]" "[]"] len ne
  show "\<exists>n. 1 \<le> n \<and> n \<le> 4 \<and>
      fst (discover_public_info p server) = map (endpoint_url p) (take n probe_order)"
    by (auto simp: discover_public_info_eq Suc_le_eq)
next
  fix k :: nat
  assume "k < 4" and "(\<forall>j < k. body_tools p server (probe_order ! j) = []) \<and>
        yields_tools p server (probe_order ! k)"
  then show "discover_public_info p server
        = (map (endpoint_url p) (take (Suc k) probe_order),
           Inr (body_tools p server (probe_order ! k)))"
    using public_info_loop_first [of k probe_order p server "[]"]
    by (simp add: discover_public_info_eq probe_order_def)
next
  assume "\<forall>j < 4. body_tools p server (probe_order ! j) = []"
  then show "discover_public_info p server
        = (map (endpoint_url p) probe_order,
           Inl (Exception ''No valid public info endpoints found''))"
    using public_info_loop_none [of probe_order p server "[]"]
    by (simp add: discover_public_info_eq probe_order_def)
qed

theorem public_info_probe_order_witness:
  "body_tools sample_probe api_info_server (probe_order ! 0) = [] \<and>
   yields_tools sample_probe api_info_server (probe_order ! 1) \<and>
   fst (discover_public_info sample_probe api_info_server)
     = [''http://x/'', ''http://x/api/info''] \<and>
   (\<exists>ts. snd (discover_public_info sample_probe api_info_server) = Inr ts \<and>
      map tool_name ts = [''t1''])"
proof -
  have b: "body_tools sample_probe api_info_server (probe_order ! 0) = []"
    and y: "yields_tools sample_probe api_info_server (probe_order ! 1)"
    by (simp_all add: probe_order_def api_info_passes)
  have "\<forall>j < 1. body_tools sample_probe api_info_server (probe_order ! j) = []"
    using b by simp
  with y have run: "discover_public_info sample_probe api_info_server
        = (map (endpoint_url sample_probe) (take (Suc 1) probe_order),
           Inr (body_tools sample_probe api_info_server (probe_order ! 1)))"
    using public_info_probe_order [of sample_probe api_info_server] by simp
  have urls: "map (endpoint_url sample_probe) (take (Suc 1) probe_order)
      = [''http://x/'', ''http://x/api/info'']"
    by (simp add: probe_order_def endpoint_url_def rstrip_slash_def sample_probe_def)
  have names: "map tool_name (body_tools sample_probe api_info_server (probe_order ! 1)) = [''t1'']"
    by (simp add: probe_order_def body_tools_def probe_defs http_sample_defs)
  from b y run urls names show ?thesis by simp
qed

subsection \<open>Tool entries\<close>



section \<open>Properties of the process strategy\<close>

lemma with_process_teardown:
  "fst (with_process w name server_config cmd t proc) = teardown w proc"
  by (simp add: with_process_def split: prod.split flow.split stdio_exception.split)

lemmas stdio_defs =
  stdio_discover_tools_def with_process_def handshake_def after_initialize_def
  init_response_def tools_response_def parse_tools_def find_tools_list_def stdio_tool_def
  teardown_def outer_handler_def no_tools_warning_def failure_message_def
  package_runners_def dict_has_def dict_get_def dict_get_default_def convert_tool_schema_def
  stdio_env_vars_def json_opt_str_def

lemmas child_defs =
  answering_child_def silent_child_def garbled_child_def cancelled_child_def
  refusing_child_def broken_child_def command_config_def

lemma sample_children_spawn:
  "spawns answering_child command_config" "spawns refusing_child command_config"
  "spawns silent_child command_config" "spawns garbled_child command_config"
  "spawns broken_child command_config" "spawns cancelled_child command_config"
  by (simp_all add: spawns_def child_defs package_runners_def)

lemma sample_children_outcomes:
  "snd (stdio_discover_tools refusing_child ''p'' command_config 30)
     = Inr ([], [''Initialization failed for p: ?''], [])"
  "snd (stdio_discover_tools silent_child ''p'' command_config 30)
     = Inr ([], [''Tools list timeout for p''], [])"
  "snd (stdio_discover_tools garbled_child ''p'' command_config 30)
     = Inr ([], [''Invalid JSON response from p: Expecting value''], [])"
  "snd (stdio_discover_tools broken_child ''p'' command_config 30)
     = Inr ([], [''STDIO discovery failed for p: [Errno 32] Broken pipe''], [])"
  "snd (stdio_discover_tools cancelled_child ''p'' command_config 30) = Inl CancelledError"
  by (simp_all add: stdio_defs child_defs)

lemma sample_answer:
  "\<exists>tool. snd (stdio_discover_tools answering_child ''p'' command_config 30)
      = Inr ([tool], [], []) \<and> tool_name tool = ''echo''"
  by (simp add: stdio_defs child_defs)

lemma process_eqI:
  "\<not> running proc \<Longrightarrow> actions proc = xs \<Longrightarrow> proc = \<lparr> running = False, actions = xs \<rparr>"
  by (cases proc) simp

text \<open>
  \<^bold>\<open>C4.\<close> The function spawns a process exactly when the command is given and found,
  a package runner has arguments, the argument list is there and \<^verbatim>\<open>Popen\<close> does not
  raise. Whenever it has spawned one, whatever the child and the pipes do afterwards and
  however the handshake ends (a result, an early return after a handshake error or a
  timeout, a response that is not JSON, any other exception, the cancellation by the
  orchestrator's deadline), it has called \<^verbatim>\<open>terminate()\<close>, then, unless that call
  raised, waited at most five seconds, and it has called \<^verbatim>\<open>kill()\<close> when the wait ran
  out or \<^verbatim>\<open>terminate()\<close> raised; it has done nothing else to the process, and the process
  runs no more when the call is over.
\<close>

theorem spawned_process_is_torn_down:
  "(fst (stdio_discover_tools w name server_config t) \<noteq> None) = spawns w server_config \<and>
   (\<forall>proc. fst (stdio_discover_tools w name server_config t) = Some proc \<longrightarrow>
      \<not> running proc \<and>
      actions proc =
        (if terminate_raises w then [Terminate, Kill]
         else if wait_returns w then [Terminate, Wait 5]
         else [Terminate, Wait 5, Kill]))"
proof -
  have "fst (stdio_discover_tools w name server_config t) =
      (if spawns w server_config then Some (teardown w \<lparr> running = True, actions = [] \<rparr>)
       else None)"
    by (auto simp: stdio_discover_tools_def spawns_def case_prod_unfold with_process_teardown
        split: option.split)
  then show ?thesis
    by (auto simp: teardown_def)
qed

theorem spawned_process_is_torn_down_witness:
  "spawns answering_child command_config \<and>
   fst (stdio_discover_tools answering_child ''p'' command_config 30)
     = Some \<lparr> running = False, actions = [Terminate, Wait 5] \<rparr> \<and>
   stdio_discover_tools refusing_child ''p'' command_config 30
     = (Some \<lparr> running = False, actions = [Terminate, Wait 5] \<rparr>,
        Inr ([], [''Initialization failed for p: ?''], [])) \<and>
   stdio_discover_tools silent_child ''p'' command_config 30
     = (Some \<lparr> running = False, actions = [Terminate, Wait 5, Kill] \<rparr>,
        Inr ([], [''Tools list timeout for p''], [])) \<and>
   stdio_discover_tools garbled_child ''p'' command_config 30
     = (Some \<lparr> running = False, actions = [Terminate, Wait 5] \<rparr>,
        Inr ([], [''Invalid JSON response from p: Expecting value''], [])) \<and>
   stdio_discover_tools broken_child ''p'' command_config 30
     = (Some \<lparr> running = False, actions = [Terminate, Wait 5] \<rparr>,
        Inr ([], [''STDIO discovery failed for p: [Errno 32] Broken pipe''], [])) \<and>
   stdio_discover_tools cancelled_child ''p'' command_config 30
     = (Some \<lparr> running = False, actions = [Terminate, Wait 5, Kill] \<rparr>, Inl CancelledError)"
proof -
  have torn: "fst (stdio_discover_tools w ''p'' command_config 30)
      = Some \<lparr> running = False,
               actions = (if wait_returns w then [Terminate, Wait 5]
                          else [Terminate, Wait 5, Kill]) \<rparr>"
    if "spawns w command_config" and "\<not> terminate_raises w" for w
  proof -
    from that(1) spawned_process_is_torn_down [of w "''p''" command_config 30]
    obtain proc where proc: "fst (stdio_discover_tools w ''p'' command_config 30) = Some proc"
      by auto
    with that(2) spawned_process_is_torn_down [of w "''p''" command_config 30]
    have "\<not> running proc"
      and "actions proc = (if wait_returns w then [Terminate, Wait 5]
                           else [Terminate, Wait 5, Kill])"
      by auto
    then show ?thesis
      using proc by (simp add: process_eqI)
  qed
  have flags: "\<not> terminate_raises answering_child" "wait_returns answering_child"
    "\<not> terminate_raises refusing_child" "wait_returns refusing_child"
    "\<not> terminate_raises silent_child" "\<not> wait_returns silent_child"
    "\<not> terminate_raises garbled_child" "wait_returns garbled_child"
    "\<not> terminate_raises broken_child" "wait_returns broken_child"
    "\<not> terminate_raises cancelled_child" "\<not> wait_returns cancelled_child"
    by (simp_all add: child_defs)
  show ?thesis
    using torn [OF sample_children_spawn(1) flags(1)] torn [OF sample_children_spawn(2) flags(3)]
      torn [OF sample_children_spawn(3) flags(5)] torn [OF sample_children_spawn(4) flags(7)]
      torn [OF sample_children_spawn(5) flags(9)] torn [OF sample_children_spawn(6) flags(11)]
      flags sample_children_spawn(1) sample_children_outcomes
    by (simp add: prod_eq_iff)
qed

end
